theory Spec2Isabelle
  imports Main "HOL-Library.Word"
begin

section \<open>unpaper, file.c: loading and saving images through libav\<close>

text \<open>
  \<^verbatim>\<open>file.c\<close> holds three functions: \<^verbatim>\<open>loadImage\<close>, \<^verbatim>\<open>saveImage\<close> and
  \<^verbatim>\<open>saveDebug\<close>. They are straight-line code around calls into libavformat,
  libavcodec and libavutil, with one nested loop (the expansion of a palette image).
  The embedding follows the C text statement by statement:
  \<^item> every library result that the source tests (\<^verbatim>\<open>if (ret < 0)\<close>, \<^verbatim>\<open>if (!codec)\<close>)
    is a field of a record describing what the library answers for the call at hand
    (\<open>decoder\<close>, \<open>encoder\<close>); a library call whose result the source never tests
    is taken to do its documented job;
  \<^item> a call of \<^verbatim>\<open>errOutput\<close> ends the function with \<open>Inl (Fatal ...)\<close>;
  \<^item> a read outside a buffer, a signed overflow, a name longer than its buffer and the
    use of an address that holds no frame end it with \<open>Inl (Undefined ...)\<close>: C gives
    them no meaning;
  \<^item> the handles the function holds, the frames on the heap and the output written are
    explicit state, returned with the result, also when the function ends in an error.
  Logging to stderr (\<^verbatim>\<open>av_dump_format\<close> under \<^verbatim>\<open>verbose >= VERBOSE_MORE\<close>) changes
  none of this state and is left out.
\<close>

subsection \<open>Data\<close>

type_synonym u8 = "8 word"
type_synonym u32 = "32 word"

text \<open>
  \<^verbatim>\<open>enum AVPixelFormat\<close> of libavutil: the six values \<^verbatim>\<open>file.c\<close> names, the value
  \<^verbatim>\<open>AV_PIX_FMT_NONE\<close> that \<^verbatim>\<open>av_frame_alloc\<close> gives a fresh frame, and
  \<open>AV_PIX_FMT_OTHER n\<close> for every other value an \<^verbatim>\<open>int\<close> can hold.
  \<^verbatim>\<open>AV_PIX_FMT_Y400A\<close> is 8-bit gray with alpha.
\<close>

datatype AVPixelFormat =
    AV_PIX_FMT_NONE
  | AV_PIX_FMT_Y400A
  | AV_PIX_FMT_GRAY8
  | AV_PIX_FMT_RGB24
  | AV_PIX_FMT_MONOBLACK
  | AV_PIX_FMT_MONOWHITE
  | AV_PIX_FMT_PAL8
  | AV_PIX_FMT_OTHER int

text \<open>
  \<^verbatim>\<open>enum AVCodecID\<close>: the three encoders \<^verbatim>\<open>saveImage\<close> selects, and the value
  \<^verbatim>\<open>-1\<close> its variable \<^verbatim>\<open>output_codec\<close> starts with.
\<close>

datatype AVCodecID =
    AV_CODEC_ID_PPM
  | AV_CODEC_ID_PGM
  | AV_CODEC_ID_PBM
  | CODEC_ID_MINUS_ONE

datatype AVMediaType =
    AVMEDIA_TYPE_VIDEO
  | AVMEDIA_TYPE_AUDIO
  | AVMEDIA_TYPE_OTHER int

text \<open>
  \<^verbatim>\<open>AVFrame\<close>, with the fields \<^verbatim>\<open>file.c\<close> reads: \<open>width\<close>, \<open>height\<close>, \<open>format\<close>,
  \<open>linesize0\<close> for \<^verbatim>\<open>linesize[0]\<close>, and \<open>palette\<close> for \<^verbatim>\<open>data[1]\<close> read through
  the cast \<^verbatim>\<open>(const uint32_t *)frame->data[1]\<close>, one entry per 32-bit word.
  \<^verbatim>\<open>data[0]\<close> is a pointer into the buffer of the first plane: \<open>data0\<close> is that
  buffer and \<open>origin0\<close> the position in it of the byte \<^verbatim>\<open>data[0]\<close> points to, so
  that \<^verbatim>\<open>data[0][i]\<close> is the byte at position \<open>origin0 + i\<close>, for \<open>i\<close> of either
  sign. A frame stored top-down has \<open>origin0 = 0\<close> and a positive line size; a frame
  stored bottom-up has \<^verbatim>\<open>data[0]\<close> at its last stored row and a negative line size.

  Modelled from the spec: the pixel accessors of \<^verbatim>\<open>tools.h\<close> are not in the sources.
  The spec has \<^verbatim>\<open>setPixel\<close> "write the resulting 32-bit color into the output buffer at
  (x, y)"; \<open>pixels\<close> is that buffer, a partial map from coordinates to the colour
  written there, empty until something is written.
\<close>

record AVFrame =
  width :: int
  height :: int
  format :: AVPixelFormat
  linesize0 :: int
  data0 :: "u8 list"
  origin0 :: nat
  palette :: "u32 list"
  pixels :: "int \<times> int \<rightharpoonup> u32"

text \<open>The arguments of a diagnostic: a C string, or the text \<^verbatim>\<open>av_strerror\<close> has for a code.\<close>

datatype arg = Str string | AvError int

datatype undefined_behaviour =
    Int_overflow
  | Plane_read
  | Palette_read
  | Name_buffer
  | Dangling_frame

datatype error =
    Fatal string "arg list"
  | Undefined undefined_behaviour

text \<open>
  Modelled from the spec: \<^verbatim>\<open>errOutput\<close> is declared in \<^verbatim>\<open>tools.h\<close> and defined outside
  the sources. The spec: every failure "is reported with a human-readable message that
  names the offending file path and, where available, the underlying library's error
  text, then terminates the process". The error value keeps the format string and its
  arguments; the caller ends where it calls \<open>errOutput\<close>.
\<close>

definition errOutput :: "string \<Rightarrow> arg list \<Rightarrow> error" where
  "errOutput fmt args = Fatal fmt args"

text \<open>
  Modelled from the spec: \<^verbatim>\<open>initImage\<close> is declared in \<^verbatim>\<open>tools.h\<close> and defined outside
  the sources. The spec: "an explicit allocation call (empty buffer of given
  geometry/format)". The last argument, \<^verbatim>\<open>-1\<close> at both calls, is kept as an argument.
\<close>

definition initImage :: "int \<Rightarrow> int \<Rightarrow> AVPixelFormat \<Rightarrow> int \<Rightarrow> AVFrame" where
  "initImage w h pixel_format background =
     \<lparr>width = w, height = h, format = pixel_format, linesize0 = 0, data0 = [],
      origin0 = 0, palette = [], pixels = Map.empty\<rparr>"

text \<open>
  Modelled from the spec: \<^verbatim>\<open>setPixel\<close> (\<^verbatim>\<open>tools.h\<close>) writes the colour into the
  buffer of the image at \<open>(x, y)\<close> and changes nothing else.
\<close>

definition setPixel :: "u32 \<Rightarrow> int \<Rightarrow> int \<Rightarrow> AVFrame \<Rightarrow> AVFrame" where
  "setPixel pixel x y img = img\<lparr>pixels := (pixels img)((x, y) \<mapsto> pixel)\<rparr>"

text \<open>
  \<^verbatim>\<open>av_frame_clone\<close> of libavutil: "a new frame that references the same data as src".
\<close>

definition av_frame_clone :: "AVFrame \<Rightarrow> AVFrame" where
  "av_frame_clone src = src"

subsection \<open>loadImage\<close>

text \<open>
  What libav answers while \<^verbatim>\<open>loadImage\<close> runs on one file: the result of each call
  the source tests, in the order of the calls, and the frame as
  \<^verbatim>\<open>avcodec_decode_video2\<close> leaves it. \<open>got_frame\<close> is the flag that call sets.
\<close>

record decoder =
  alloc_context3 :: bool
  open_input :: int
  nb_streams :: nat
  codec_type :: AVMediaType
  copy_context :: int
  find_decoder :: bool
  dec_open2 :: int
  read_frame :: int
  stream_index :: int
  decode_video2 :: int
  got_frame :: bool
  frame :: AVFrame

text \<open>The handles a call holds: what it has allocated or opened and not yet released.\<close>

datatype resource =
    CodecContext
  | OpenedCodec
  | FormatContext
  | DecodedFrame
  | Packet
  | OutputContext
  | Stream
  | IOHandle

text \<open>The range of a C \<^verbatim>\<open>int\<close> (32 bits); arithmetic that leaves it is undefined.\<close>

definition int_ok :: "int \<Rightarrow> bool" where
  "int_ok v \<longleftrightarrow> - (2 ^ 31) \<le> v \<and> v < 2 ^ 31"

text \<open>
  \<^verbatim>\<open>frame->data[0][frame->linesize[0] * y + x]\<close>, line 105: the index is computed in
  \<^verbatim>\<open>int\<close>, then added to the pointer \<^verbatim>\<open>data[0]\<close>; the read is defined when it lands
  inside the buffer, before or after the byte \<^verbatim>\<open>data[0]\<close> points to.
\<close>

definition read_index :: "AVFrame \<Rightarrow> int \<Rightarrow> int \<Rightarrow> error + u8" where
  "read_index f y x =
     (let i = linesize0 f * y + x in
      if \<not> (int_ok (linesize0 f * y) \<and> int_ok i) then Inl (Undefined Int_overflow)
      else if 0 \<le> int (origin0 f) + i \<and> int (origin0 f) + i < int (length (data0 f))
        then Inr (data0 f ! nat (int (origin0 f) + i))
      else Inl (Undefined Plane_read))"

text \<open>\<^verbatim>\<open>palette[palette_index]\<close>, line 106: the index is a \<^verbatim>\<open>uint8_t\<close>.\<close>

definition read_palette :: "AVFrame \<Rightarrow> u8 \<Rightarrow> error + u32" where
  "read_palette f palette_index =
     (if unat palette_index < length (palette f) then Inr (palette f ! unat palette_index)
      else Inl (Undefined Palette_read))"

text \<open>The inner loop, lines 103 to 107: \<^verbatim>\<open>for (int x = ...; x < frame->width; x++)\<close>.\<close>

function pal8_columns :: "AVFrame \<Rightarrow> int \<Rightarrow> int \<Rightarrow> AVFrame \<Rightarrow> error + AVFrame" where
  "pal8_columns f y x img =
     (if x < width f then
        (case read_index f y x of
           Inl e \<Rightarrow> Inl e
         | Inr palette_index \<Rightarrow>
             (case read_palette f palette_index of
                Inl e \<Rightarrow> Inl e
              | Inr pixel \<Rightarrow> pal8_columns f y (x + 1) (setPixel pixel x y img)))
      else Inr img)"
  by pat_completeness auto
termination
  by (relation "measure (\<lambda>(f, y, x, img). nat (width f - x))") auto

text \<open>The outer loop, lines 102 to 108: \<^verbatim>\<open>for (int y = ...; y < frame->height; y++)\<close>.\<close>

function pal8_rows :: "AVFrame \<Rightarrow> int \<Rightarrow> AVFrame \<Rightarrow> error + AVFrame" where
  "pal8_rows f y img =
     (if y < height f then
        (case pal8_columns f y 0 img of
           Inl e \<Rightarrow> Inl e
         | Inr img' \<Rightarrow> pal8_rows f (y + 1) img')
      else Inr img)"
  by pat_completeness auto
termination
  by (relation "measure (\<lambda>(f, y, img). nat (height f - y))") auto

declare pal8_columns.simps [simp del] pal8_rows.simps [simp del]

text \<open>
  The \<^verbatim>\<open>switch (frame->format)\<close> of lines 89 to 113; \<open>filename\<close> is only named in the
  diagnostic.
\<close>

definition load_switch :: "string \<Rightarrow> AVFrame \<Rightarrow> error + AVFrame" where
  "load_switch filename f =
     (case format f of
        AV_PIX_FMT_Y400A \<Rightarrow> Inr (av_frame_clone f)
      | AV_PIX_FMT_GRAY8 \<Rightarrow> Inr (av_frame_clone f)
      | AV_PIX_FMT_RGB24 \<Rightarrow> Inr (av_frame_clone f)
      | AV_PIX_FMT_MONOBLACK \<Rightarrow> Inr (av_frame_clone f)
      | AV_PIX_FMT_MONOWHITE \<Rightarrow> Inr (av_frame_clone f)
      | AV_PIX_FMT_PAL8 \<Rightarrow>
          pal8_rows f 0 (initImage (width f) (height f) AV_PIX_FMT_RGB24 (- 1))
      | _ \<Rightarrow>
          Inl (errOutput ''unable to open file %s: unsupported pixel format'' [Str filename]))"

text \<open>
  \<^verbatim>\<open>loadImage\<close>, lines 29 to 118. The result is what \<^verbatim>\<open>*image\<close> holds at the return,
  or the error the call ends with; the second component lists the handles the call still
  holds at that moment. \<^verbatim>\<open>avcodec_close\<close> followed by \<^verbatim>\<open>av_free\<close> releases the codec
  context, \<^verbatim>\<open>avformat_close_input\<close> the format context; no statement of the function
  releases \<^verbatim>\<open>frame\<close> or \<^verbatim>\<open>pkt\<close>.
\<close>

definition loadImage :: "decoder \<Rightarrow> string \<Rightarrow> (error + AVFrame) \<times> resource list" where
  "loadImage lib filename =
     (let held0 = (if alloc_context3 lib then [CodecContext] else []) @ [DecodedFrame] in
      if \<not> alloc_context3 lib then
        (Inl (errOutput ''cannot allocate a new context'' []), held0)
      else if open_input lib < 0 then
        (Inl (errOutput ''unable to open file %s: %s'' [Str filename, AvError (open_input lib)]),
         held0)
      else
        let held1 = FormatContext # held0 in
        if nb_streams lib < 1 then
          (Inl (errOutput ''unable to open file %s: missing streams'' [Str filename]), held1)
        else if codec_type lib \<noteq> AVMEDIA_TYPE_VIDEO then
          (Inl (errOutput ''unable to open file %s: wrong stream'' [Str filename]), held1)
        else if copy_context lib < 0 then
          (Inl (errOutput ''cannot set the new context for %s: %s''
                  [Str filename, AvError (copy_context lib)]), held1)
        else if \<not> find_decoder lib then
          (Inl (errOutput ''unable to open file %s: unsupported format'' [Str filename]), held1)
        else if dec_open2 lib < 0 then
          (Inl (errOutput ''unable to open file %s: %s'' [Str filename, AvError (dec_open2 lib)]),
           held1)
        else
          let held2 = OpenedCodec # held1 in
          if read_frame lib < 0 then
            (Inl (errOutput ''unable to open file %s: %s''
                    [Str filename, AvError (read_frame lib)]), held2)
          else
            let held3 = Packet # held2 in
            if stream_index lib \<noteq> 0 then
              (Inl (errOutput ''unable to open file %s: invalid stream.'' [Str filename]), held3)
            else if decode_video2 lib < 0 then
              (Inl (errOutput ''unable to open file %s: %s''
                      [Str filename, AvError (decode_video2 lib)]), held3)
            else
              (case load_switch filename (frame lib) of
                 Inl e \<Rightarrow> (Inl e, held3)
               | Inr img \<Rightarrow>
                   (Inr img,
                    remove1 FormatContext
                      (remove1 CodecContext (remove1 OpenedCodec held3)))))"

text \<open>
  Every library call before the \<^verbatim>\<open>switch\<close> answers without an error: the file opens,
  its first stream is a video stream with a decoder, and a packet of stream 0 decodes.
\<close>

definition decodes :: "decoder \<Rightarrow> bool" where
  "decodes lib \<longleftrightarrow>
     alloc_context3 lib \<and> 0 \<le> open_input lib \<and> 1 \<le> nb_streams lib \<and>
     codec_type lib = AVMEDIA_TYPE_VIDEO \<and> 0 \<le> copy_context lib \<and> find_decoder lib \<and>
     0 \<le> dec_open2 lib \<and> 0 \<le> read_frame lib \<and> stream_index lib = 0 \<and>
     0 \<le> decode_video2 lib"

text \<open>A library for which every call succeeds and decoding leaves the frame \<open>f\<close>.\<close>

definition decoding_to :: "AVFrame \<Rightarrow> decoder" where
  "decoding_to f =
     \<lparr>alloc_context3 = True, open_input = 0, nb_streams = 1,
      codec_type = AVMEDIA_TYPE_VIDEO, copy_context = 0, find_decoder = True,
      dec_open2 = 0, read_frame = 0, stream_index = 0, decode_video2 = 0,
      got_frame = True, frame = f\<rparr>"

subsection \<open>saveImage\<close>

text \<open>
  What libav answers while \<^verbatim>\<open>saveImage\<close> runs: the result of each call the source
  tests. \<^verbatim>\<open>avcodec_find_encoder\<close> is a function of the codec id, since the id depends
  on the requested format.
\<close>

record encoder =
  guess_format :: bool
  alloc_output_context :: bool
  find_encoder :: "AVCodecID \<Rightarrow> bool"
  new_stream :: bool
  enc_open2 :: int
  avio_open :: int
  write_header :: int
  encode_video2 :: int

text \<open>
  What \<^verbatim>\<open>file.c\<close> uses of the program around it and of libc, none of it in the sources:
  the global \<^verbatim>\<open>verbose\<close>, the macro \<^verbatim>\<open>VERBOSE_DEBUG_SAVE\<close> of \<^verbatim>\<open>unpaper.h\<close>,
  \<^verbatim>\<open>sprintf\<close> at a template and one \<^verbatim>\<open>int\<close>, and the colours \<^verbatim>\<open>copyImageArea\<close>
  (\<^verbatim>\<open>tools.h\<close>) gives the pixels of its target.
\<close>

record unpaper =
  verbose :: int
  VERBOSE_DEBUG_SAVE :: int
  sprintf :: "string \<Rightarrow> int \<Rightarrow> string"
  copied_pixels ::
    "int \<Rightarrow> int \<Rightarrow> int \<Rightarrow> int \<Rightarrow> AVFrame \<Rightarrow> int \<Rightarrow> int \<Rightarrow> AVFrame \<Rightarrow> (int \<times> int \<rightharpoonup> u32)"

text \<open>
  Modelled from the spec: \<^verbatim>\<open>copyImageArea\<close> is declared in \<^verbatim>\<open>tools.h\<close> and defined
  outside the sources. The spec: "allocate a new buffer in the target format and
  copy/convert the full pixel area", and "conversions always produce a new buffer rather
  than mutating in place": the call writes the pixels of its target and nothing else.
  Which colour each pixel receives is the parameter \<open>copied_pixels\<close>.
\<close>

definition copyImageArea ::
  "unpaper \<Rightarrow> int \<Rightarrow> int \<Rightarrow> int \<Rightarrow> int \<Rightarrow> AVFrame \<Rightarrow> int \<Rightarrow> int \<Rightarrow> AVFrame \<Rightarrow> AVFrame" where
  "copyImageArea env x y w h source toX toY target =
     target\<lparr>pixels := copied_pixels env x y w h source toX toY target\<rparr>"

text \<open>
  The encoder context as lines 185 to 187 fill it, and what reaches the output:
  \<^verbatim>\<open>avio_open\<close> creates the file, \<^verbatim>\<open>avformat_write_header\<close>,
  \<^verbatim>\<open>av_write_frame\<close> (with the packet \<^verbatim>\<open>avcodec_encode_video2\<close> made of the frame
  at an address) and \<^verbatim>\<open>av_write_trailer\<close> write to it, \<^verbatim>\<open>avio_close\<close> closes it.
\<close>

record codec_ctx =
  ctx_codec :: AVCodecID
  ctx_width :: int
  ctx_height :: int
  ctx_pix_fmt :: AVPixelFormat

datatype io_event =
    Open_file string
  | Write_header
  | Write_frame codec_ctx nat AVFrame
  | Write_trailer
  | Close_file

text \<open>
  The state \<^verbatim>\<open>saveImage\<close> works on: the \<^verbatim>\<open>AVFrame\<close> objects by address (\<open>None\<close> once
  freed; a new frame takes the next address), the handles held, the output so far.
\<close>

record world =
  frames :: "AVFrame option list"
  held :: "resource list"
  written :: "io_event list"

definition frame_at :: "world \<Rightarrow> nat \<Rightarrow> AVFrame option" where
  "frame_at w p = (if p < length (frames w) then frames w ! p else None)"

definition new_frame :: "AVFrame \<Rightarrow> world \<Rightarrow> nat \<times> world" where
  "new_frame f w = (length (frames w), w\<lparr>frames := frames w @ [Some f]\<rparr>)"

definition store_frame :: "nat \<Rightarrow> AVFrame \<Rightarrow> world \<Rightarrow> world" where
  "store_frame p f w = w\<lparr>frames := (frames w)[p := Some f]\<rparr>"

definition av_frame_free :: "nat \<Rightarrow> world \<Rightarrow> world" where
  "av_frame_free p w = w\<lparr>frames := (frames w)[p := None]\<rparr>"

definition hold :: "resource \<Rightarrow> world \<Rightarrow> world" where
  "hold r w = w\<lparr>held := r # held w\<rparr>"

definition release :: "resource \<Rightarrow> world \<Rightarrow> world" where
  "release r w = w\<lparr>held := remove1 r (held w)\<rparr>"

definition emit :: "io_event list \<Rightarrow> world \<Rightarrow> world" where
  "emit es w = w\<lparr>written := written w @ es\<rparr>"

text \<open>
  The \<^verbatim>\<open>switch (outputPixFmt)\<close> of lines 153 to 167: the new value of \<^verbatim>\<open>outputPixFmt\<close>
  and the value of \<^verbatim>\<open>output_codec\<close>. The switch has no \<^verbatim>\<open>default\<close>: any other format
  leaves \<^verbatim>\<open>outputPixFmt\<close> as it came and \<^verbatim>\<open>output_codec\<close> at its initial \<^verbatim>\<open>-1\<close>.
\<close>

definition save_switch :: "AVPixelFormat \<Rightarrow> AVPixelFormat \<times> AVCodecID" where
  "save_switch outputPixFmt =
     (case outputPixFmt of
        AV_PIX_FMT_RGB24 \<Rightarrow> (outputPixFmt, AV_CODEC_ID_PPM)
      | AV_PIX_FMT_Y400A \<Rightarrow> (AV_PIX_FMT_GRAY8, AV_CODEC_ID_PGM)
      | AV_PIX_FMT_GRAY8 \<Rightarrow> (AV_PIX_FMT_GRAY8, AV_CODEC_ID_PGM)
      | AV_PIX_FMT_MONOBLACK \<Rightarrow> (AV_PIX_FMT_MONOWHITE, AV_CODEC_ID_PBM)
      | AV_PIX_FMT_MONOWHITE \<Rightarrow> (AV_PIX_FMT_MONOWHITE, AV_CODEC_ID_PBM)
      | _ \<Rightarrow> (outputPixFmt, CODEC_ID_MINUS_ONE))"

text \<open>
  Lines 169 to 172: \<^verbatim>\<open>output\<close> starts as \<^verbatim>\<open>input\<close>; when the formats differ,
  \<^verbatim>\<open>initImage\<close> points it to a new frame and \<^verbatim>\<open>copyImageArea\<close> fills that frame from
  the input. The result is the address \<^verbatim>\<open>output\<close>, the frame there, and the state.
\<close>

definition save_convert ::
  "unpaper \<Rightarrow> nat \<Rightarrow> AVFrame \<Rightarrow> AVPixelFormat \<Rightarrow> world \<Rightarrow> nat \<times> AVFrame \<times> world" where
  "save_convert env input inp outputPixFmt w =
     (if format inp \<noteq> outputPixFmt then
        let blank = initImage (width inp) (height inp) outputPixFmt (- 1);
            (output, w') = new_frame blank w;
            out = copyImageArea env 0 0 (width inp) (height inp) inp 0 0 blank
        in (output, out, store_frame output out w')
      else (input, inp, w))"

text \<open>
  Lines 174 to 229: from \<^verbatim>\<open>avcodec_find_encoder\<close> to \<^verbatim>\<open>av_free(out_ctx)\<close>, for the
  frame \<open>out\<close> at the address \<open>output\<close>. The results of \<^verbatim>\<open>av_write_frame\<close> and
  \<^verbatim>\<open>av_write_trailer\<close> are not tested by the source.
\<close>

definition save_encode ::
  "encoder \<Rightarrow> string \<Rightarrow> AVCodecID \<Rightarrow> nat \<Rightarrow> AVFrame \<Rightarrow> world \<Rightarrow> (error + unit) \<times> world" where
  "save_encode lib filename output_codec output out w2 =
     (if \<not> find_encoder lib output_codec then
        (Inl (errOutput ''output codec not found'' []), w2)
      else if \<not> new_stream lib then
        (Inl (errOutput ''could not alloc output stream'' []), w2)
      else
        let w3 = hold Stream w2;
            ctx = \<lparr>ctx_codec = output_codec, ctx_width = width out, ctx_height = height out,
                   ctx_pix_fmt = format out\<rparr>
        in
        if enc_open2 lib < 0 then
          (Inl (errOutput ''unable to open codec: %s'' [AvError (enc_open2 lib)]), w3)
        else
          let w4 = hold OpenedCodec w3 in
          if avio_open lib < 0 then
            (Inl (errOutput (''could not open '' @ [CHR 0x27] @ ''%s'' @ [CHR 0x27])
                    [Str filename]), w4)
          else
            let w5 = emit [Open_file filename] (hold IOHandle w4) in
            if write_header lib < 0 then
              (Inl (errOutput (''error writing header to '' @ [CHR 0x27] @ ''%s'' @ [CHR 0x27])
                      [Str filename]), w5)
            else
              let w6 = emit [Write_header] w5 in
              if encode_video2 lib < 0 then
                (Inl (errOutput ''unable to write file %s: %s''
                        [Str filename, AvError (encode_video2 lib)]), w6)
              else
                let w7 = emit [Write_frame ctx output out, Write_trailer] w6;
                    w8 = release Stream (release OpenedCodec w7);
                    w9 = emit [Close_file] (release IOHandle w8)
                in (Inr (), release OutputContext w9))"

text \<open>
  \<^verbatim>\<open>saveImage\<close>, lines 128 to 233. \<open>input\<close> is the address of the caller's frame.
  The copy of the name into \<^verbatim>\<open>out_ctx->filename\<close> (line 151) and the time base (lines
  188 and 189) reach none of the modelled state: the file is opened under \<^verbatim>\<open>filename\<close>.
\<close>

definition saveImage ::
  "unpaper \<Rightarrow> encoder \<Rightarrow> string \<Rightarrow> nat \<Rightarrow> AVPixelFormat \<Rightarrow> world \<Rightarrow> (error + unit) \<times> world" where
  "saveImage env lib filename input outputPixFmt w0 =
     (if \<not> guess_format lib then
        (Inl (errOutput ''could not find suitable output format.'' []), w0)
      else if \<not> alloc_output_context lib then
        (Inl (errOutput ''unable to allocate output context.'' []), w0)
      else
        let w1 = hold OutputContext w0;
            (outputPixFmt', output_codec) = save_switch outputPixFmt
        in
        (case frame_at w1 input of
           None \<Rightarrow> (Inl (Undefined Dangling_frame), w1)
         | Some inp \<Rightarrow>
             let (output, out, w2) = save_convert env input inp outputPixFmt' w1 in
             (case save_encode lib filename output_codec output out w2 of
                (Inl e, w) \<Rightarrow> (Inl e, w)
              | (Inr u, w) \<Rightarrow>
                  (Inr u, if output \<noteq> input then av_frame_free output w else w))))"

subsection \<open>saveDebug\<close>

text \<open>
  \<^verbatim>\<open>saveDebug\<close>, lines 238 to 244. \<^verbatim>\<open>sprintf\<close> writes the name and its closing zero
  byte into \<^verbatim>\<open>char debugFilename[100]\<close>: a name of 100 characters or more does not fit.
\<close>

definition saveDebug ::
  "unpaper \<Rightarrow> encoder \<Rightarrow> string \<Rightarrow> int \<Rightarrow> nat \<Rightarrow> world \<Rightarrow> (error + unit) \<times> world" where
  "saveDebug env lib filenameTemplate index image_ptr w =
     (if verbose env \<ge> VERBOSE_DEBUG_SAVE env then
        let debugFilename = sprintf env filenameTemplate index in
        if 100 \<le> length debugFilename then (Inl (Undefined Name_buffer), w)
        else
          (case frame_at w image_ptr of
             None \<Rightarrow> (Inl (Undefined Dangling_frame), w)
           | Some img \<Rightarrow> saveImage env lib debugFilename image_ptr (format img) w)
      else (Inr (), w))"

subsection \<open>Terms of the specification, and example inputs\<close>

text \<open>
  The colour the spec assigns to the pixel \<open>(x, y)\<close> of a palette image: the palette
  entry selected by the byte at \<^verbatim>\<open>data[0][linesize[0]*y + x]\<close>, which is the byte of
  the buffer at position \<open>origin0 + (linesize0 * y + x)\<close>.
\<close>

definition palette_colour :: "AVFrame \<Rightarrow> int \<Rightarrow> int \<Rightarrow> u32" where
  "palette_colour f x y =
     palette f ! unat (data0 f ! nat (int (origin0 f) + (linesize0 f * y + x)))"

text \<open>
  A frame whose first plane holds every pixel: for each row \<open>y\<close> and column \<open>x\<close> of the
  frame, the index \<^verbatim>\<open>linesize[0]*y + x\<close> is computed without overflow and, counted
  from the byte \<^verbatim>\<open>data[0]\<close> points to, lies inside the buffer of the plane. The line
  size may have either sign.
\<close>

definition plane_ok :: "AVFrame \<Rightarrow> bool" where
  "plane_ok f \<longleftrightarrow>
     (\<forall>y x. 0 \<le> y \<and> y < height f \<and> 0 \<le> x \<and> x < width f \<longrightarrow>
        int_ok (linesize0 f * y) \<and> int_ok (linesize0 f * y + x) \<and>
        0 \<le> int (origin0 f) + (linesize0 f * y + x) \<and>
        int (origin0 f) + (linesize0 f * y + x) < int (length (data0 f)))"

text \<open>
  The image after the inner loop has run from column \<open>x\<close> on row \<open>y\<close>, and after the
  outer loop has run from row \<open>y\<close>: closed forms the loops are proved equal to.
\<close>

definition row_written :: "AVFrame \<Rightarrow> int \<Rightarrow> int \<Rightarrow> AVFrame \<Rightarrow> AVFrame" where
  "row_written f y x img =
     img\<lparr>pixels := (\<lambda>(a, b). if b = y \<and> x \<le> a \<and> a < width f
                                then Some (palette_colour f a b) else pixels img (a, b))\<rparr>"

definition rows_written :: "AVFrame \<Rightarrow> int \<Rightarrow> AVFrame \<Rightarrow> AVFrame" where
  "rows_written f y img =
     img\<lparr>pixels := (\<lambda>(a, b). if y \<le> b \<and> b < height f \<and> 0 \<le> a \<and> a < width f
                                then Some (palette_colour f a b) else pixels img (a, b))\<rparr>"

text \<open>
  A frame as \<^verbatim>\<open>av_frame_alloc\<close> returns it (no buffer, format \<^verbatim>\<open>AV_PIX_FMT_NONE\<close>),
  a 2 by 2 palette image with two bytes of padding per row whose indices include 0 and
  255, and a 2 by 1 gray image.
\<close>

definition av_frame_alloc :: AVFrame where
  "av_frame_alloc =
     \<lparr>width = 0, height = 0, format = AV_PIX_FMT_NONE, linesize0 = 0, data0 = [],
      origin0 = 0,
      palette = [], pixels = Map.empty\<rparr>"

definition pal8_example :: AVFrame where
  "pal8_example =
     \<lparr>width = 2, height = 2, format = AV_PIX_FMT_PAL8, linesize0 = 4,
      data0 = [0, 255, 9, 9, 1, 2, 9, 9], origin0 = 0,
      palette = map (\<lambda>i. 0xFF000000 + of_nat i) [0..<256], pixels = Map.empty\<rparr>"

definition gray_example :: AVFrame where
  "gray_example =
     \<lparr>width = 2, height = 1, format = AV_PIX_FMT_GRAY8, linesize0 = 2,
      data0 = [7, 200], origin0 = 0, palette = [], pixels = Map.empty\<rparr>"

text \<open>
  The same 2 by 2 palette image stored bottom-up: the second row comes first in the
  buffer, \<^verbatim>\<open>data[0]\<close> points to the first row at position 4, and the line size is -4.
\<close>

definition pal8_bottom_up :: AVFrame where
  "pal8_bottom_up =
     \<lparr>width = 2, height = 2, format = AV_PIX_FMT_PAL8, linesize0 = - 4,
      data0 = [1, 2, 9, 9, 0, 255, 9, 9], origin0 = 4,
      palette = map (\<lambda>i. 0xFF000000 + of_nat i) [0..<256], pixels = Map.empty\<rparr>"

text \<open>
  The table of the spec (section 4.2), in the spec's words: the normalized format and
  the output codec for each desired format, \<open>None\<close> for a format outside the table.
\<close>

definition format_table :: "AVPixelFormat \<Rightarrow> (AVPixelFormat \<times> AVCodecID) option" where
  "format_table desiredFormat =
     (if desiredFormat = AV_PIX_FMT_RGB24 then Some (AV_PIX_FMT_RGB24, AV_CODEC_ID_PPM)
      else if desiredFormat = AV_PIX_FMT_GRAY8 \<or> desiredFormat = AV_PIX_FMT_Y400A
        then Some (AV_PIX_FMT_GRAY8, AV_CODEC_ID_PGM)
      else if desiredFormat = AV_PIX_FMT_MONOBLACK \<or> desiredFormat = AV_PIX_FMT_MONOWHITE
        then Some (AV_PIX_FMT_MONOWHITE, AV_CODEC_ID_PBM)
      else None)"

text \<open>What one successful \<^verbatim>\<open>saveImage\<close> adds to the output: one file, opened, written, closed.\<close>

definition file_written :: "string \<Rightarrow> codec_ctx \<Rightarrow> nat \<Rightarrow> AVFrame \<Rightarrow> io_event list" where
  "file_written filename ctx output out =
     [Open_file filename, Write_header, Write_frame ctx output out, Write_trailer, Close_file]"

text \<open>
  Example inputs. \<open>sprintf_d\<close> is \<^verbatim>\<open>sprintf\<close> for a template whose only conversion is
  one \<^verbatim>\<open>%d\<close>; \<open>encoding\<close> is a library where every call succeeds and no encoder is
  registered under the id \<^verbatim>\<open>-1\<close>; \<open>debugging\<close> runs at the debug-save level;
  \<open>one_gray_frame\<close> is a heap holding the gray example at address 0.
\<close>

fun digits :: "nat \<Rightarrow> string" where
  "digits n =
     (if n < 10 then [''0123456789'' ! n]
      else digits (n div 10) @ [''0123456789'' ! (n mod 10)])"

declare digits.simps [simp del]

fun substitute :: "string \<Rightarrow> string \<Rightarrow> string" where
  "substitute [] s = []"
| "substitute (c # cs) s =
     (if c = CHR ''%'' \<and> take 1 cs = ''d'' then s @ drop 1 cs else c # substitute cs s)"

definition sprintf_d :: "string \<Rightarrow> int \<Rightarrow> string" where
  "sprintf_d template i =
     substitute template (if i < 0 then ''-'' @ digits (nat (- i)) else digits (nat i))"

definition encoding :: encoder where
  "encoding =
     \<lparr>guess_format = True, alloc_output_context = True,
      find_encoder = (\<lambda>c. c \<noteq> CODEC_ID_MINUS_ONE), new_stream = True, enc_open2 = 0,
      avio_open = 0, write_header = 0, encode_video2 = 0\<rparr>"

definition debugging :: unpaper where
  "debugging =
     \<lparr>verbose = 4, VERBOSE_DEBUG_SAVE = 4, sprintf = sprintf_d,
      copied_pixels = (\<lambda>x y w h source toX toY target. pixels source)\<rparr>"

definition one_gray_frame :: world where
  "one_gray_frame = \<lparr>frames = [Some gray_example], held = [], written = []\<rparr>"

section \<open>Lemmas\<close>

subsection \<open>loadImage\<close>

lemma decodes_decoding_to: "decodes (decoding_to f)"
  by (simp add: decodes_def decoding_to_def)

lemma frame_decoding_to: "frame (decoding_to f) = f"
  by (simp add: decoding_to_def)

lemma loadImage_decodes:
  "decodes lib \<Longrightarrow>
   loadImage lib filename =
     (case load_switch filename (frame lib) of
        Inl e \<Rightarrow> (Inl e, [Packet, OpenedCodec, FormatContext, CodecContext, DecodedFrame])
      | Inr img \<Rightarrow> (Inr img, [Packet, DecodedFrame]))"
  by (simp add: loadImage_def decodes_def Let_def split: sum.split)

lemma loadImage_Inr:
  "loadImage lib filename = (Inr img, hs) \<Longrightarrow>
   decodes lib \<and> load_switch filename (frame lib) = Inr img \<and> hs = [Packet, DecodedFrame]"
  by (auto simp: loadImage_def decodes_def Let_def split: if_splits sum.splits)

lemma loadImage_not_decodes:
  "\<not> decodes lib \<Longrightarrow> \<exists>msg args. fst (loadImage lib filename) = Inl (Fatal msg args)"
  by (auto simp: loadImage_def decodes_def Let_def errOutput_def)

lemma read_index_ok:
  "plane_ok f \<Longrightarrow> 0 \<le> y \<Longrightarrow> y < height f \<Longrightarrow> 0 \<le> x \<Longrightarrow> x < width f \<Longrightarrow>
   read_index f y x = Inr (data0 f ! nat (int (origin0 f) + (linesize0 f * y + x)))"
  by (simp add: read_index_def plane_ok_def Let_def)

lemma unat_u8_less: "unat (i :: u8) < 256"
  using unsigned_less [of i] by simp

lemma read_palette_ok:
  "256 \<le> length (palette f) \<Longrightarrow> read_palette f i = Inr (palette f ! unat i)"
  using unat_u8_less [of i] by (simp add: read_palette_def)

lemma read_index_not_palette: "read_index f y x \<noteq> Inl (Undefined Palette_read)"
  by (simp add: read_index_def Let_def)

lemma pal8_columns_closed:
  "plane_ok f \<Longrightarrow> 256 \<le> length (palette f) \<Longrightarrow> 0 \<le> y \<Longrightarrow> y < height f \<Longrightarrow> 0 \<le> x \<Longrightarrow>
   pal8_columns f y x img = Inr (row_written f y x img)"
proof (induction f y x img rule: pal8_columns.induct)
  case (1 f y x img)
  show ?case
  proof (cases "x < width f")
    case False
    have "(\<lambda>(a, b). if b = y \<and> x \<le> a \<and> a < width f
                     then Some (palette_colour f a b) else pixels img (a, b)) = pixels img"
      using False by (auto simp: fun_eq_iff)
    then have "row_written f y x img = img"
      by (simp add: row_written_def)
    with False show ?thesis
      by (subst pal8_columns.simps) simp
  next
    case True
    let ?i = "data0 f ! nat (int (origin0 f) + (linesize0 f * y + x))"
    let ?c = "palette f ! unat ?i"
    have r: "read_index f y x = Inr ?i"
      using 1 True by (simp add: read_index_ok)
    have p: "read_palette f ?i = Inr ?c"
      using 1 by (simp add: read_palette_ok)
    have "pal8_columns f y (x + 1) (setPixel ?c x y img) = Inr (row_written f y (x + 1) (setPixel ?c x y img))"
      using 1 True r p by simp
    moreover have "row_written f y (x + 1) (setPixel ?c x y img) = row_written f y x img"
      using True by (auto simp: row_written_def setPixel_def palette_colour_def fun_eq_iff)
    ultimately show ?thesis
      using True r p by (subst pal8_columns.simps) simp
  qed
qed

lemma pal8_rows_closed:
  "plane_ok f \<Longrightarrow> 256 \<le> length (palette f) \<Longrightarrow> 0 \<le> y \<Longrightarrow>
   pal8_rows f y img = Inr (rows_written f y img)"
proof (induction f y img rule: pal8_rows.induct)
  case (1 f y img)
  show ?case
  proof (cases "y < height f")
    case False
    have "(\<lambda>(a, b). if y \<le> b \<and> b < height f \<and> 0 \<le> a \<and> a < width f
                     then Some (palette_colour f a b) else pixels img (a, b)) = pixels img"
      using False by (auto simp: fun_eq_iff)
    then have "rows_written f y img = img"
      by (simp add: rows_written_def)
    with False show ?thesis
      by (subst pal8_rows.simps) simp
  next
    case True
    have c: "pal8_columns f y 0 img = Inr (row_written f y 0 img)"
      using 1 True by (simp add: pal8_columns_closed)
    have "pal8_rows f (y + 1) (row_written f y 0 img) = Inr (rows_written f (y + 1) (row_written f y 0 img))"
      using 1 True c by simp
    moreover have "pixels (rows_written f (y + 1) (row_written f y 0 img)) = pixels (rows_written f y img)"
      using True "1.prems" by (auto simp: rows_written_def row_written_def fun_eq_iff)
    then have "rows_written f (y + 1) (row_written f y 0 img) = rows_written f y img"
      by (simp add: rows_written_def row_written_def)
    ultimately show ?thesis
      using True c by (subst pal8_rows.simps) simp
  qed
qed

lemma pal8_columns_header:
  "pal8_columns f y x img = Inr img' \<Longrightarrow>
   width img' = width img \<and> height img' = height img \<and> format img' = format img"
proof (induction f y x img arbitrary: img' rule: pal8_columns.induct)
  case (1 f y x img)
  show ?case
  proof (cases "x < width f")
    case False
    with "1.prems" show ?thesis
      by (subst (asm) pal8_columns.simps) simp
  next
    case True
    from "1.prems" True obtain i c where
      r: "read_index f y x = Inr i" and p: "read_palette f i = Inr c" and
      rest: "pal8_columns f y (x + 1) (setPixel c x y img) = Inr img'"
      by (subst (asm) pal8_columns.simps) (auto split: sum.splits)
    from "1.IH" [OF True r p rest] show ?thesis
      by (simp add: setPixel_def)
  qed
qed

lemma pal8_rows_header:
  "pal8_rows f y img = Inr img' \<Longrightarrow>
   width img' = width img \<and> height img' = height img \<and> format img' = format img"
proof (induction f y img arbitrary: img' rule: pal8_rows.induct)
  case (1 f y img)
  show ?case
  proof (cases "y < height f")
    case False
    with "1.prems" show ?thesis
      by (subst (asm) pal8_rows.simps) simp
  next
    case True
    from "1.prems" True obtain mid where
      c: "pal8_columns f y 0 img = Inr mid" and rest: "pal8_rows f (y + 1) mid = Inr img'"
      by (subst (asm) pal8_rows.simps) (auto split: sum.splits)
    from "1.IH" [OF True c rest] pal8_columns_header [OF c] show ?thesis
      by simp
  qed
qed

lemma pal8_columns_palette_safe:
  "256 \<le> length (palette f) \<Longrightarrow> pal8_columns f y x img \<noteq> Inl (Undefined Palette_read)"
proof (induction f y x img rule: pal8_columns.induct)
  case (1 f y x img)
  show ?case
  proof (cases "x < width f")
    case False
    then show ?thesis
      by (subst pal8_columns.simps) simp
  next
    case True
    show ?thesis
    proof (cases "read_index f y x")
      case (Inl e)
      with True read_index_not_palette [of f y x] show ?thesis
        by (subst pal8_columns.simps) auto
    next
      case (Inr i)
      have p: "read_palette f i = Inr (palette f ! unat i)"
        using 1 by (simp add: read_palette_ok)
      from "1.IH" [OF True Inr p] "1.prems" True Inr p show ?thesis
        by (subst pal8_columns.simps) simp
    qed
  qed
qed

lemma pal8_rows_palette_safe:
  "256 \<le> length (palette f) \<Longrightarrow> pal8_rows f y img \<noteq> Inl (Undefined Palette_read)"
proof (induction f y img rule: pal8_rows.induct)
  case (1 f y img)
  show ?case
  proof (cases "y < height f")
    case False
    then show ?thesis
      by (subst pal8_rows.simps) simp
  next
    case True
    show ?thesis
    proof (cases "pal8_columns f y 0 img")
      case (Inl e)
      with True pal8_columns_palette_safe [OF "1.prems", of y 0 img] show ?thesis
        by (subst pal8_rows.simps) auto
    next
      case (Inr mid)
      from "1.IH" [OF True Inr] "1.prems" True Inr show ?thesis
        by (subst pal8_rows.simps) simp
    qed
  qed
qed

lemma load_switch_format:
  "load_switch filename f = Inr img \<Longrightarrow>
   format img \<in> {AV_PIX_FMT_Y400A, AV_PIX_FMT_GRAY8, AV_PIX_FMT_RGB24,
                  AV_PIX_FMT_MONOBLACK, AV_PIX_FMT_MONOWHITE}"
  by (cases "format f")
     (auto simp: load_switch_def av_frame_clone_def initImage_def errOutput_def
           dest!: pal8_rows_header)

lemma load_switch_unsupported:
  "format f \<notin> {AV_PIX_FMT_Y400A, AV_PIX_FMT_GRAY8, AV_PIX_FMT_RGB24, AV_PIX_FMT_MONOBLACK,
                AV_PIX_FMT_MONOWHITE, AV_PIX_FMT_PAL8} \<Longrightarrow>
   load_switch filename f =
     Inl (Fatal ''unable to open file %s: unsupported pixel format'' [Str filename])"
  by (cases "format f") (auto simp: load_switch_def errOutput_def)

lemma load_switch_clone:
  "format f \<in> {AV_PIX_FMT_Y400A, AV_PIX_FMT_GRAY8, AV_PIX_FMT_RGB24, AV_PIX_FMT_MONOBLACK,
                AV_PIX_FMT_MONOWHITE} \<Longrightarrow>
   load_switch filename f = Inr f"
  by (auto simp: load_switch_def av_frame_clone_def)

lemma load_switch_palette_safe:
  "256 \<le> length (palette f) \<Longrightarrow> load_switch filename f \<noteq> Inl (Undefined Palette_read)"
  by (cases "format f") (auto simp: load_switch_def errOutput_def pal8_rows_palette_safe)

lemma plane_ok_pal8_example: "plane_ok pal8_example"
  by (auto simp: plane_ok_def pal8_example_def int_ok_def)

lemma plane_ok_pal8_bottom_up: "plane_ok pal8_bottom_up"
  by (auto simp: plane_ok_def pal8_bottom_up_def int_ok_def)

lemma read_index_Inr:
  "read_index f y x = Inr i \<Longrightarrow>
   int_ok (linesize0 f * y) \<and> int_ok (linesize0 f * y + x) \<and>
   0 \<le> int (origin0 f) + (linesize0 f * y + x) \<and>
   int (origin0 f) + (linesize0 f * y + x) < int (length (data0 f))"
  by (auto simp: read_index_def Let_def split: if_splits)

lemma pal8_columns_reads:
  "pal8_columns f y x img = Inr img' \<Longrightarrow> x \<le> x' \<Longrightarrow> x' < width f \<Longrightarrow>
   \<exists>i. read_index f y x' = Inr i"
proof (induction f y x img arbitrary: img' rule: pal8_columns.induct)
  case (1 f y x img)
  from "1.prems" have lt: "x < width f"
    by simp
  from "1.prems"(1) lt obtain i c where
    r: "read_index f y x = Inr i" and p: "read_palette f i = Inr c" and
    rest: "pal8_columns f y (x + 1) (setPixel c x y img) = Inr img'"
    by (subst (asm) pal8_columns.simps) (auto split: sum.splits)
  show ?case
  proof (cases "x' = x")
    case True
    with r show ?thesis
      by blast
  next
    case False
    with "1.prems" have "x + 1 \<le> x'"
      by simp
    from "1.IH" [OF lt r p rest this "1.prems"(3)] show ?thesis .
  qed
qed

lemma pal8_rows_reads:
  "pal8_rows f y img = Inr img' \<Longrightarrow> y \<le> y' \<Longrightarrow> y' < height f \<Longrightarrow>
   0 \<le> x' \<Longrightarrow> x' < width f \<Longrightarrow> \<exists>i. read_index f y' x' = Inr i"
proof (induction f y img arbitrary: img' rule: pal8_rows.induct)
  case (1 f y img)
  from "1.prems" have lt: "y < height f"
    by simp
  from "1.prems"(1) lt obtain mid where
    c: "pal8_columns f y 0 img = Inr mid" and rest: "pal8_rows f (y + 1) mid = Inr img'"
    by (subst (asm) pal8_rows.simps) (auto split: sum.splits)
  show ?case
  proof (cases "y' = y")
    case True
    with pal8_columns_reads [OF c "1.prems"(4,5)] show ?thesis
      by simp
  next
    case False
    with "1.prems" have "y + 1 \<le> y'"
      by simp
    from "1.IH" [OF lt c rest this "1.prems"(3,4,5)] show ?thesis .
  qed
qed

lemma loadImage_palette_needs_plane:
  assumes "format (frame lib) = AV_PIX_FMT_PAL8"
    and "loadImage lib filename = (Inr img, hs)"
  shows "plane_ok (frame lib)"
proof -
  have "load_switch filename (frame lib) = Inr img"
    using assms(2) by (simp add: loadImage_Inr)
  then have rows: "pal8_rows (frame lib) 0
      (initImage (width (frame lib)) (height (frame lib)) AV_PIX_FMT_RGB24 (- 1)) = Inr img"
    using assms(1) by (simp add: load_switch_def)
  show ?thesis
    unfolding plane_ok_def
  proof (intro allI impI)
    fix y x
    assume "0 \<le> y \<and> y < height (frame lib) \<and> 0 \<le> x \<and> x < width (frame lib)"
    then obtain i where "read_index (frame lib) y x = Inr i"
      using pal8_rows_reads [OF rows, of y x] by blast
    then show "int_ok (linesize0 (frame lib) * y) \<and> int_ok (linesize0 (frame lib) * y + x) \<and>
        0 \<le> int (origin0 (frame lib)) + (linesize0 (frame lib) * y + x) \<and>
        int (origin0 (frame lib)) + (linesize0 (frame lib) * y + x)
          < int (length (data0 (frame lib)))"
      by (rule read_index_Inr)
  qed
qed

lemma loadImage_undefined:
  "fst (loadImage lib filename) = Inl (Undefined u) \<Longrightarrow>
   load_switch filename (frame lib) = Inl (Undefined u)"
  by (auto simp: loadImage_def Let_def errOutput_def split: if_splits sum.splits)

lemma loadImage_got_frame:
  "loadImage (lib\<lparr>got_frame := b\<rparr>) filename = loadImage lib filename"
  by (simp add: loadImage_def Let_def)

lemma palette_read_reachable:
  "fst (loadImage (decoding_to (pal8_example\<lparr>palette := [0]\<rparr>)) ''scan.png'') =
     Inl (Undefined Palette_read)"
  by (simp add: loadImage_decodes decodes_decoding_to frame_decoding_to load_switch_def
      pal8_example_def pal8_rows.simps pal8_columns.simps read_index_def read_palette_def
      int_ok_def initImage_def setPixel_def)

subsection \<open>saveImage and saveDebug\<close>

lemma frame_at_hold: "frame_at (hold r w) p = frame_at w p"
  by (simp add: frame_at_def hold_def)

lemma frame_at_less: "frame_at w p = Some f \<Longrightarrow> p < length (frames w)"
  by (simp add: frame_at_def split: if_splits)

lemma frames_hold: "frames (hold r w) = frames w"
  by (simp add: hold_def)

lemma written_hold: "written (hold r w) = written w"
  by (simp add: hold_def)

lemma frames_av_frame_free:
  "frames (av_frame_free p w) = (frames w)[p := None]"
  by (simp add: av_frame_free_def)

lemma written_av_frame_free: "written (av_frame_free p w) = written w"
  by (simp add: av_frame_free_def)

lemma save_switch_table:
  "format_table d = Some (fmt, codec) \<Longrightarrow> save_switch d = (fmt, codec)"
  by (auto simp: format_table_def save_switch_def split: if_splits)

lemma save_switch_outside:
  "format_table d = None \<Longrightarrow> save_switch d = (d, CODEC_ID_MINUS_ONE)"
  by (cases d) (auto simp: format_table_def save_switch_def split: if_splits)

lemma save_convert_same:
  "format inp = fmt \<Longrightarrow> save_convert env input inp fmt w = (input, inp, w)"
  by (simp add: save_convert_def)

lemma save_convert_other:
  "format inp \<noteq> fmt \<Longrightarrow>
   \<exists>out. save_convert env input inp fmt w =
            (length (frames w), out, w\<lparr>frames := frames w @ [Some out]\<rparr>) \<and>
          format out = fmt \<and> width out = width inp \<and> height out = height inp"
  by (simp add: save_convert_def new_frame_def store_frame_def copyImageArea_def
      initImage_def Let_def)

lemma save_encode_frames:
  "frames (snd (save_encode lib filename codec output out w)) = frames w"
  by (simp add: save_encode_def Let_def hold_def release_def emit_def)

lemma save_encode_Inr:
  "save_encode lib filename codec output out w = (Inr u, w') \<Longrightarrow>
   find_encoder lib codec \<and>
   written w' = written w @
     file_written filename
       \<lparr>ctx_codec = codec, ctx_width = width out, ctx_height = height out,
        ctx_pix_fmt = format out\<rparr> output out"
  by (auto simp: save_encode_def Let_def hold_def release_def emit_def file_written_def
      split: if_splits)

lemma save_encode_no_encoder:
  "\<not> find_encoder lib codec \<Longrightarrow>
   save_encode lib filename codec output out w = (Inl (Fatal ''output codec not found'' []), w)"
  by (simp add: save_encode_def errOutput_def)

lemma saveImage_early:
  "\<not> guess_format lib \<or> \<not> alloc_output_context lib \<Longrightarrow>
   \<exists>msg args. saveImage env lib filename input d w = (Inl (Fatal msg args), w)"
  by (auto simp: saveImage_def errOutput_def)

lemma saveImage_Inr_lib:
  assumes "fst (saveImage env lib filename input d w) = Inr u"
  shows "guess_format lib \<and> alloc_output_context lib"
proof (rule ccontr)
  assume "\<not> (guess_format lib \<and> alloc_output_context lib)"
  then obtain msg args where "saveImage env lib filename input d w = (Inl (Fatal msg args), w)"
    using saveImage_early [of lib env filename input d w] by blast
  with assms show False
    by simp
qed

lemma saveImage_same:
  assumes "guess_format lib" "alloc_output_context lib" "frame_at w input = Some inp"
    and "format inp = fst (save_switch d)"
  shows "saveImage env lib filename input d w =
           save_encode lib filename (snd (save_switch d)) input inp (hold OutputContext w)"
proof -
  obtain r w' where e:
    "save_encode lib filename (snd (save_switch d)) input inp (hold OutputContext w) = (r, w')"
    by (cases "save_encode lib filename (snd (save_switch d)) input inp (hold OutputContext w)")
  show ?thesis
    using assms e
    by (cases r) (simp_all add: saveImage_def Let_def split_def frame_at_hold save_convert_same)
qed

lemma saveImage_other:
  assumes "guess_format lib" "alloc_output_context lib" "frame_at w input = Some inp"
    and "format inp \<noteq> fst (save_switch d)"
  shows "\<exists>out. format out = fst (save_switch d) \<and> width out = width inp \<and>
           height out = height inp \<and>
           saveImage env lib filename input d w =
             (case save_encode lib filename (snd (save_switch d)) (length (frames w)) out
                     ((hold OutputContext w)\<lparr>frames := frames w @ [Some out]\<rparr>) of
                (Inl e, w') \<Rightarrow> (Inl e, w')
              | (Inr u, w') \<Rightarrow> (Inr u, av_frame_free (length (frames w)) w'))"
proof -
  from save_convert_other [OF assms(4), of env input "hold OutputContext w"]
  obtain out where
    c: "save_convert env input inp (fst (save_switch d)) (hold OutputContext w) =
          (length (frames (hold OutputContext w)), out,
           (hold OutputContext w)\<lparr>frames := frames (hold OutputContext w) @ [Some out]\<rparr>)" and
    o: "format out = fst (save_switch d)" "width out = width inp" "height out = height inp"
    by blast
  have l: "frames (hold OutputContext w) = frames w"
    by (simp add: hold_def)
  have n: "length (frames w) \<noteq> input"
    using frame_at_less [OF assms(3)] by simp
  have "saveImage env lib filename input d w =
             (case save_encode lib filename (snd (save_switch d)) (length (frames w)) out
                     ((hold OutputContext w)\<lparr>frames := frames w @ [Some out]\<rparr>) of
                (Inl e, w') \<Rightarrow> (Inl e, w')
              | (Inr u, w') \<Rightarrow> (Inr u, av_frame_free (length (frames w)) w'))"
    using assms(1-3) c n unfolding l
    by (simp add: saveImage_def Let_def split_def frame_at_hold split: prod.splits sum.splits)
  with o show ?thesis
    by blast
qed

lemma saveImage_on_target:
  assumes "frame_at w input = Some inp"
  shows "format inp = fst (save_switch d) \<longrightarrow>
            frames (snd (saveImage env lib filename input d w)) = frames w \<and>
            (fst (saveImage env lib filename input d w) = Inr () \<longrightarrow>
               written (snd (saveImage env lib filename input d w)) =
                 written w @
                 file_written filename
                   \<lparr>ctx_codec = snd (save_switch d), ctx_width = width inp,
                    ctx_height = height inp, ctx_pix_fmt = format inp\<rparr> input inp)"
proof (intro conjI impI)
  assume same: "format inp = fst (save_switch d)"
  show "frames (snd (saveImage env lib filename input d w)) = frames w"
  proof (cases "guess_format lib \<and> alloc_output_context lib")
    case True
    then have "saveImage env lib filename input d w =
        save_encode lib filename (snd (save_switch d)) input inp (hold OutputContext w)"
      using saveImage_same [OF _ _ assms same] by blast
    then show ?thesis
      by (simp add: save_encode_frames frames_hold)
  next
    case False
    then obtain msg args where "saveImage env lib filename input d w = (Inl (Fatal msg args), w)"
      using saveImage_early [of lib env filename input d w] by blast
    then show ?thesis
      by simp
  qed
  assume ok: "fst (saveImage env lib filename input d w) = Inr ()"
  have lib: "guess_format lib" "alloc_output_context lib"
    using ok by (auto dest: saveImage_Inr_lib)
  have run: "saveImage env lib filename input d w =
      save_encode lib filename (snd (save_switch d)) input inp (hold OutputContext w)"
    by (rule saveImage_same [OF lib assms same])
  obtain w' where "save_encode lib filename (snd (save_switch d)) input inp (hold OutputContext w) =
      (Inr (), w')"
    using ok unfolding run by (metis prod.collapse)
  from save_encode_Inr [OF this] this
  show "written (snd (saveImage env lib filename input d w)) =
          written w @
          file_written filename
            \<lparr>ctx_codec = snd (save_switch d), ctx_width = width inp,
             ctx_height = height inp, ctx_pix_fmt = format inp\<rparr> input inp"
    unfolding run by (simp add: written_hold)
qed

lemma saveImage_Inr_written:
  assumes "frame_at w input = Some inp"
    and ok: "fst (saveImage env lib filename input d w) = Inr ()"
  shows "\<exists>output out. format out = fst (save_switch d) \<and>
           written (snd (saveImage env lib filename input d w)) =
             written w @
             file_written filename
               \<lparr>ctx_codec = snd (save_switch d), ctx_width = width inp,
                ctx_height = height inp, ctx_pix_fmt = fst (save_switch d)\<rparr> output out"
proof (cases "format inp = fst (save_switch d)")
  case True
  from saveImage_on_target [OF assms(1), of d env lib filename] True ok
  show ?thesis
    by auto
next
  case False
  have lib: "guess_format lib" "alloc_output_context lib"
    using ok by (auto dest: saveImage_Inr_lib)
  from saveImage_other [OF lib assms(1) False, of env filename]
  obtain out where o: "format out = fst (save_switch d)" "width out = width inp"
      "height out = height inp" and
    run: "saveImage env lib filename input d w =
           (case save_encode lib filename (snd (save_switch d)) (length (frames w)) out
                   ((hold OutputContext w)\<lparr>frames := frames w @ [Some out]\<rparr>) of
              (Inl e, w') \<Rightarrow> (Inl e, w')
            | (Inr u, w') \<Rightarrow> (Inr u, av_frame_free (length (frames w)) w'))"
    by auto
  let ?w2 = "(hold OutputContext w)\<lparr>frames := frames w @ [Some out]\<rparr>"
  obtain r w' where e:
    "save_encode lib filename (snd (save_switch d)) (length (frames w)) out ?w2 = (r, w')"
    by (cases "save_encode lib filename (snd (save_switch d)) (length (frames w)) out ?w2")
  from ok have r: "r = Inr ()"
    unfolding run e by (cases r) simp_all
  from save_encode_Inr [OF e [unfolded r]] o
  have "written (snd (saveImage env lib filename input d w)) =
          written w @
          file_written filename
            \<lparr>ctx_codec = snd (save_switch d), ctx_width = width inp, ctx_height = height inp,
             ctx_pix_fmt = fst (save_switch d)\<rparr> (length (frames w)) out"
    unfolding run e r by (simp add: written_av_frame_free written_hold)
  with o show ?thesis
    by blast
qed

lemma sprintf_d_example: "sprintf_d ''stage%d.pnm'' 3 = ''stage3.pnm''"
  by (simp add: sprintf_d_def digits.simps)

lemma substitute_plain: "CHR ''%'' \<notin> set template \<Longrightarrow> substitute template s = template"
  by (induction template) auto

lemmas save_example_simps =
  saveImage_def save_encode_def save_convert_def save_switch_def frame_at_def new_frame_def
  store_frame_def av_frame_free_def hold_def release_def emit_def copyImageArea_def
  initImage_def errOutput_def file_written_def encoding_def debugging_def
  one_gray_frame_def gray_example_def Let_def

lemma frame_at_one_gray_frame: "frame_at one_gray_frame 0 = Some gray_example"
  by (simp add: frame_at_def one_gray_frame_def)

lemma save_gray_as_gray_alpha:
  "saveImage debugging encoding ''out.pgm'' 0 AV_PIX_FMT_Y400A one_gray_frame =
     (Inr (),
      \<lparr>frames = [Some gray_example], held = [],
       written = file_written ''out.pgm''
         \<lparr>ctx_codec = AV_CODEC_ID_PGM, ctx_width = 2, ctx_height = 1,
          ctx_pix_fmt = AV_PIX_FMT_GRAY8\<rparr> 0 gray_example\<rparr>)"
  by (simp add: save_example_simps)


lemma save_gray_as_palette:
  "saveImage debugging encoding ''out.pnm'' 0 AV_PIX_FMT_PAL8 one_gray_frame =
     (Inl (Fatal ''output codec not found'' []),
      \<lparr>frames = [Some gray_example,
                 Some (gray_example\<lparr>format := AV_PIX_FMT_PAL8, linesize0 := 0, data0 := []\<rparr>)],
       held = [OutputContext], written = []\<rparr>)"
  by (simp add: save_example_simps)

section \<open>The claims\<close>

subsection \<open>loadImage\<close>

text \<open>
  Claim C1. For a source that decodes to a palette frame (PAL8) of width \<open>w\<close> and height
  \<open>h\<close> with a 256-entry palette, \<open>loadImage\<close> returns an RGB24 image of the same width
  and height whose pixel at \<open>(x, y)\<close>, for every \<open>x < w\<close> and \<open>y < h\<close>, is the palette
  entry selected by the byte at \<^verbatim>\<open>data[0][linesize[0]*y + x]\<close>. Every pixel of the image
  and no other position has been written when the function returns, and the decoded frame
  is still held then: the output is complete before the frame is released.

  The frame may be stored top-down or bottom-up (a negative line size, \<^verbatim>\<open>data[0]\<close> at the
  last stored row). The hypothesis \<open>plane_ok\<close> says that the reads of line 105 are defined
  in C; by \<open>loadImage_palette_needs_plane\<close> it holds of every palette frame for which
  the call returns an image, so it excludes no source the code expands.
\<close>

theorem loadImage_expands_palette:
  assumes "decodes lib"
    and "format (frame lib) = AV_PIX_FMT_PAL8"
    and "plane_ok (frame lib)"
    and "length (palette (frame lib)) = 256"
  shows "\<exists>img hs. loadImage lib filename = (Inr img, hs) \<and>
           format img = AV_PIX_FMT_RGB24 \<and>
           width img = width (frame lib) \<and> height img = height (frame lib) \<and>
           (\<forall>x y. 0 \<le> x \<and> x < width (frame lib) \<and> 0 \<le> y \<and> y < height (frame lib) \<longrightarrow>
              pixels img (x, y) =
                Some (palette (frame lib) !
                        unat (data0 (frame lib) !
                                nat (int (origin0 (frame lib)) +
                                     (linesize0 (frame lib) * y + x))))) \<and>
           dom (pixels img) =
             {(x, y). 0 \<le> x \<and> x < width (frame lib) \<and> 0 \<le> y \<and> y < height (frame lib)} \<and>
           DecodedFrame \<in> set hs"
proof -
  let ?f = "frame lib"
  let ?blank = "initImage (width ?f) (height ?f) AV_PIX_FMT_RGB24 (- 1)"
  have "pal8_rows ?f 0 ?blank = Inr (rows_written ?f 0 ?blank)"
    using assms(3,4) by (intro pal8_rows_closed) auto
  then have sw: "load_switch filename ?f = Inr (rows_written ?f 0 ?blank)"
    using assms(2) by (simp add: load_switch_def)
  have run: "loadImage lib filename = (Inr (rows_written ?f 0 ?blank), [Packet, DecodedFrame])"
    using assms(1) sw by (simp add: loadImage_decodes)
  have px: "pixels (rows_written ?f 0 ?blank) =
        (\<lambda>(a, b). if 0 \<le> b \<and> b < height ?f \<and> 0 \<le> a \<and> a < width ?f
                   then Some (palette_colour ?f a b) else None)"
    by (auto simp: rows_written_def initImage_def fun_eq_iff)
  have "dom (pixels (rows_written ?f 0 ?blank)) =
          {(x, y). 0 \<le> x \<and> x < width ?f \<and> 0 \<le> y \<and> y < height ?f}"
    unfolding px by (auto simp: dom_def split: if_splits)
  moreover have "\<forall>x y. 0 \<le> x \<and> x < width ?f \<and> 0 \<le> y \<and> y < height ?f \<longrightarrow>
      pixels (rows_written ?f 0 ?blank) (x, y) =
        Some (palette ?f ! unat (data0 ?f ! nat (int (origin0 ?f) + (linesize0 ?f * y + x))))"
    unfolding px by (simp add: palette_colour_def)
  moreover have "format (rows_written ?f 0 ?blank) = AV_PIX_FMT_RGB24"
    "width (rows_written ?f 0 ?blank) = width ?f"
    "height (rows_written ?f 0 ?blank) = height ?f"
    by (simp_all add: rows_written_def initImage_def)
  ultimately show ?thesis
    using run by simp
qed

theorem loadImage_expands_palette_witness:
  "(\<exists>img hs. loadImage (decoding_to pal8_example) ''scan.png'' = (Inr img, hs) \<and>
      format img = AV_PIX_FMT_RGB24 \<and> width img = 2 \<and> height img = 2 \<and>
      pixels img (0, 0) = Some 0xFF000000 \<and> pixels img (1, 0) = Some 0xFF0000FF \<and>
      pixels img (0, 1) = Some 0xFF000001 \<and> pixels img (1, 1) = Some 0xFF000002) \<and>
   (\<exists>img hs. loadImage (decoding_to pal8_bottom_up) ''scan.bmp'' = (Inr img, hs) \<and>
      format img = AV_PIX_FMT_RGB24 \<and> width img = 2 \<and> height img = 2 \<and>
      pixels img (0, 0) = Some 0xFF000000 \<and> pixels img (1, 0) = Some 0xFF0000FF \<and>
      pixels img (0, 1) = Some 0xFF000001 \<and> pixels img (1, 1) = Some 0xFF000002)"
proof
  have f: "frame (decoding_to pal8_example) = pal8_example"
    by (rule frame_decoding_to)
  from loadImage_expands_palette [of "decoding_to pal8_example" "''scan.png''", unfolded f,
      OF decodes_decoding_to _ plane_ok_pal8_example]
  obtain img hs where
    run: "loadImage (decoding_to pal8_example) ''scan.png'' = (Inr img, hs)" and
    hdr: "format img = AV_PIX_FMT_RGB24" "width img = width pal8_example"
      "height img = height pal8_example" and
    px: "\<And>x y. 0 \<le> x \<and> x < width pal8_example \<and> 0 \<le> y \<and> y < height pal8_example \<Longrightarrow>
        pixels img (x, y) =
          Some (palette pal8_example !
                  unat (data0 pal8_example !
                          nat (int (origin0 pal8_example) + (linesize0 pal8_example * y + x))))"
    by (auto simp: pal8_example_def)
  have "pixels img (0, 0) = Some 0xFF000000" "pixels img (1, 0) = Some 0xFF0000FF"
    "pixels img (0, 1) = Some 0xFF000001" "pixels img (1, 1) = Some 0xFF000002"
    by (simp_all add: px pal8_example_def)
  with run hdr
  show "\<exists>img hs. loadImage (decoding_to pal8_example) ''scan.png'' = (Inr img, hs) \<and>
      format img = AV_PIX_FMT_RGB24 \<and> width img = 2 \<and> height img = 2 \<and>
      pixels img (0, 0) = Some 0xFF000000 \<and> pixels img (1, 0) = Some 0xFF0000FF \<and>
      pixels img (0, 1) = Some 0xFF000001 \<and> pixels img (1, 1) = Some 0xFF000002"
    by (simp add: pal8_example_def)
next
  have f: "frame (decoding_to pal8_bottom_up) = pal8_bottom_up"
    by (rule frame_decoding_to)
  from loadImage_expands_palette [of "decoding_to pal8_bottom_up" "''scan.bmp''", unfolded f,
      OF decodes_decoding_to _ plane_ok_pal8_bottom_up]
  obtain img hs where
    run: "loadImage (decoding_to pal8_bottom_up) ''scan.bmp'' = (Inr img, hs)" and
    hdr: "format img = AV_PIX_FMT_RGB24" "width img = width pal8_bottom_up"
      "height img = height pal8_bottom_up" and
    px: "\<And>x y. 0 \<le> x \<and> x < width pal8_bottom_up \<and> 0 \<le> y \<and> y < height pal8_bottom_up \<Longrightarrow>
        pixels img (x, y) =
          Some (palette pal8_bottom_up !
                  unat (data0 pal8_bottom_up !
                          nat (int (origin0 pal8_bottom_up) +
                               (linesize0 pal8_bottom_up * y + x))))"
    by (auto simp: pal8_bottom_up_def)
  have "pixels img (0, 0) = Some 0xFF000000" "pixels img (1, 0) = Some 0xFF0000FF"
    "pixels img (0, 1) = Some 0xFF000001" "pixels img (1, 1) = Some 0xFF000002"
    by (simp_all add: px pal8_bottom_up_def)
  with run hdr
  show "\<exists>img hs. loadImage (decoding_to pal8_bottom_up) ''scan.bmp'' = (Inr img, hs) \<and>
      format img = AV_PIX_FMT_RGB24 \<and> width img = 2 \<and> height img = 2 \<and>
      pixels img (0, 0) = Some 0xFF000000 \<and> pixels img (1, 0) = Some 0xFF0000FF \<and>
      pixels img (0, 1) = Some 0xFF000001 \<and> pixels img (1, 1) = Some 0xFF000002"
    by (simp add: pal8_bottom_up_def)
qed

text \<open>
  Claim C3. An image that \<open>loadImage\<close> returns has one of the formats Gray8, GrayAlpha8
  (\<^verbatim>\<open>AV_PIX_FMT_Y400A\<close>), RGB24, MonoBlack, MonoWhite, never Palette8; a palette frame
  comes back as RGB24. When the decoded frame has a format outside these five and
  Palette8, the call ends in a fatal error: the one for an unsupported pixel format when
  every library call before the \<^verbatim>\<open>switch\<close> succeeded, an earlier one otherwise.
\<close>

theorem loadImage_result_format:
  "(\<forall>img hs. loadImage lib filename = (Inr img, hs) \<longrightarrow>
      format img \<in> {AV_PIX_FMT_GRAY8, AV_PIX_FMT_Y400A, AV_PIX_FMT_RGB24,
                     AV_PIX_FMT_MONOBLACK, AV_PIX_FMT_MONOWHITE} \<and>
      format img \<noteq> AV_PIX_FMT_PAL8 \<and>
      (format (frame lib) = AV_PIX_FMT_PAL8 \<longrightarrow> format img = AV_PIX_FMT_RGB24)) \<and>
   (format (frame lib) \<notin> {AV_PIX_FMT_GRAY8, AV_PIX_FMT_Y400A, AV_PIX_FMT_RGB24,
                             AV_PIX_FMT_MONOBLACK, AV_PIX_FMT_MONOWHITE, AV_PIX_FMT_PAL8} \<longrightarrow>
      (\<exists>msg args. fst (loadImage lib filename) = Inl (Fatal msg args)) \<and>
      (decodes lib \<longrightarrow>
         fst (loadImage lib filename) =
           Inl (Fatal ''unable to open file %s: unsupported pixel format'' [Str filename])))"
proof (intro conjI allI impI)
  fix img hs
  assume run: "loadImage lib filename = (Inr img, hs)"
  then have sw: "load_switch filename (frame lib) = Inr img"
    by (simp add: loadImage_Inr)
  from load_switch_format [OF sw]
  show "format img \<in> {AV_PIX_FMT_GRAY8, AV_PIX_FMT_Y400A, AV_PIX_FMT_RGB24,
                       AV_PIX_FMT_MONOBLACK, AV_PIX_FMT_MONOWHITE}"
    by auto
  then show "format img \<noteq> AV_PIX_FMT_PAL8"
    by auto
  assume "format (frame lib) = AV_PIX_FMT_PAL8"
  with sw show "format img = AV_PIX_FMT_RGB24"
    by (auto simp: load_switch_def initImage_def dest!: pal8_rows_header)
next
  assume u: "format (frame lib) \<notin> {AV_PIX_FMT_GRAY8, AV_PIX_FMT_Y400A, AV_PIX_FMT_RGB24,
                             AV_PIX_FMT_MONOBLACK, AV_PIX_FMT_MONOWHITE, AV_PIX_FMT_PAL8}"
  then have sw: "load_switch filename (frame lib) =
      Inl (Fatal ''unable to open file %s: unsupported pixel format'' [Str filename])"
    by (intro load_switch_unsupported) auto
  show "\<exists>msg args. fst (loadImage lib filename) = Inl (Fatal msg args)"
  proof (cases "decodes lib")
    case True
    with sw show ?thesis by (simp add: loadImage_decodes)
  next
    case False
    then show ?thesis by (rule loadImage_not_decodes)
  qed
  assume "decodes lib"
  with sw show "fst (loadImage lib filename) =
           Inl (Fatal ''unable to open file %s: unsupported pixel format'' [Str filename])"
    by (simp add: loadImage_decodes)
qed

theorem loadImage_result_format_witness:
  "loadImage (decoding_to gray_example) ''page.pgm'' = (Inr gray_example, [Packet, DecodedFrame]) \<and>
   format gray_example = AV_PIX_FMT_GRAY8 \<and>
   fst (loadImage (decoding_to (av_frame_alloc\<lparr>format := AV_PIX_FMT_OTHER 0\<rparr>)) ''page.tif'') =
     Inl (Fatal ''unable to open file %s: unsupported pixel format'' [Str ''page.tif''])"
proof -
  have run: "loadImage (decoding_to gray_example) ''page.pgm'' =
      (Inr gray_example, [Packet, DecodedFrame])"
    by (simp add: loadImage_decodes decodes_decoding_to frame_decoding_to load_switch_def
        av_frame_clone_def gray_example_def)
  from loadImage_result_format [of "decoding_to gray_example" "''page.pgm''"] run
  have "format gray_example \<in> {AV_PIX_FMT_GRAY8, AV_PIX_FMT_Y400A, AV_PIX_FMT_RGB24,
                                 AV_PIX_FMT_MONOBLACK, AV_PIX_FMT_MONOWHITE}"
    by blast
  moreover have "format gray_example = AV_PIX_FMT_GRAY8"
    by (simp add: gray_example_def)
  moreover
  from loadImage_result_format
    [of "decoding_to (av_frame_alloc\<lparr>format := AV_PIX_FMT_OTHER 0\<rparr>)" "''page.tif''"]
  have "fst (loadImage (decoding_to (av_frame_alloc\<lparr>format := AV_PIX_FMT_OTHER 0\<rparr>))
               ''page.tif'') =
     Inl (Fatal ''unable to open file %s: unsupported pixel format'' [Str ''page.tif''])"
    by (simp add: decodes_decoding_to frame_decoding_to)
  ultimately show ?thesis
    using run by simp
qed

text \<open>
  Claim C4. For a source that decodes to a frame in Gray8, GrayAlpha8, RGB24, MonoBlack
  or MonoWhite, \<open>loadImage\<close> returns an image with the width, height and pixel format
  of the decoded frame and the same plane bytes and line size: a clone, nothing converted.
\<close>

theorem loadImage_clones_supported_formats:
  assumes "decodes lib"
    and "format (frame lib) \<in> {AV_PIX_FMT_GRAY8, AV_PIX_FMT_Y400A, AV_PIX_FMT_RGB24,
                                 AV_PIX_FMT_MONOBLACK, AV_PIX_FMT_MONOWHITE}"
  shows "\<exists>img. fst (loadImage lib filename) = Inr img \<and>
           width img = width (frame lib) \<and> height img = height (frame lib) \<and>
           format img = format (frame lib) \<and> linesize0 img = linesize0 (frame lib) \<and>
           data0 img = data0 (frame lib) \<and> img = frame lib"
proof -
  have "load_switch filename (frame lib) = Inr (frame lib)"
    using assms(2) by (intro load_switch_clone) auto
  then show ?thesis
    using assms(1) by (simp add: loadImage_decodes)
qed

theorem loadImage_clones_supported_formats_witness:
  "fst (loadImage (decoding_to gray_example) ''page.pgm'') = Inr gray_example \<and>
   data0 gray_example = [7, 200]"
  using loadImage_clones_supported_formats [of "decoding_to gray_example" "''page.pgm''"]
  by (auto simp: decodes_decoding_to frame_decoding_to gray_example_def)

text \<open>
  Against claim C6 as stated: for a file without streams \<open>loadImage\<close> ends in the fatal
  error with the format context and the codec context still held.
\<close>

theorem loadImage_failure_keeps_contexts:
  "fst (loadImage ((decoding_to gray_example)\<lparr>nb_streams := 0\<rparr>) ''empty.pnm'') =
     Inl (Fatal ''unable to open file %s: missing streams'' [Str ''empty.pnm'']) \<and>
   FormatContext \<in> set (snd (loadImage ((decoding_to gray_example)\<lparr>nb_streams := 0\<rparr>) ''empty.pnm'')) \<and>
   CodecContext \<in> set (snd (loadImage ((decoding_to gray_example)\<lparr>nb_streams := 0\<rparr>) ''empty.pnm''))"
  by (simp add: loadImage_def decoding_to_def errOutput_def)

text \<open>
  Claim C6, amended. When \<open>loadImage\<close> returns an image, the codec context (closed, then
  freed) and the format context it opened have been released. When it ends in an error,
  it has released nothing: the codec context and the format context, once opened, are
  still held at the call of \<^verbatim>\<open>errOutput\<close>.
\<close>

theorem loadImage_releases_on_return:
  "(\<forall>img. fst (loadImage lib filename) = Inr img \<longrightarrow>
      FormatContext \<notin> set (snd (loadImage lib filename)) \<and>
      CodecContext \<notin> set (snd (loadImage lib filename)) \<and>
      OpenedCodec \<notin> set (snd (loadImage lib filename))) \<and>
   (\<forall>e. fst (loadImage lib filename) = Inl e \<longrightarrow>
      (alloc_context3 lib \<longrightarrow> CodecContext \<in> set (snd (loadImage lib filename))) \<and>
      (alloc_context3 lib \<and> 0 \<le> open_input lib \<longrightarrow>
         FormatContext \<in> set (snd (loadImage lib filename))))"
proof (intro conjI allI impI)
  fix img
  assume "fst (loadImage lib filename) = Inr img"
  then have "loadImage lib filename = (Inr img, snd (loadImage lib filename))"
    by (metis prod.collapse)
  then have hs: "snd (loadImage lib filename) = [Packet, DecodedFrame]"
    by (rule loadImage_Inr [THEN conjunct2, THEN conjunct2])
  show "FormatContext \<notin> set (snd (loadImage lib filename))"
    "CodecContext \<notin> set (snd (loadImage lib filename))"
    "OpenedCodec \<notin> set (snd (loadImage lib filename))"
    by (simp_all add: hs)
next
  fix e
  assume e: "fst (loadImage lib filename) = Inl e"
  {
    assume "alloc_context3 lib"
    with e show "CodecContext \<in> set (snd (loadImage lib filename))"
      by (auto simp: loadImage_def Let_def split: if_splits sum.splits)
  }
  {
    assume "alloc_context3 lib \<and> 0 \<le> open_input lib"
    with e show "FormatContext \<in> set (snd (loadImage lib filename))"
      by (auto simp: loadImage_def Let_def split: if_splits sum.splits)
  }
qed

theorem loadImage_releases_on_return_witness:
  "fst (loadImage (decoding_to gray_example) ''page.pgm'') = Inr gray_example \<and>
   FormatContext \<notin> set (snd (loadImage (decoding_to gray_example) ''page.pgm'')) \<and>
   CodecContext \<notin> set (snd (loadImage (decoding_to gray_example) ''page.pgm'')) \<and>
   fst (loadImage ((decoding_to gray_example)\<lparr>read_frame := - 5\<rparr>) ''cut.pgm'') =
     Inl (Fatal ''unable to open file %s: %s'' [Str ''cut.pgm'', AvError (- 5)]) \<and>
   FormatContext \<in> set (snd (loadImage ((decoding_to gray_example)\<lparr>read_frame := - 5\<rparr>) ''cut.pgm'')) \<and>
   CodecContext \<in> set (snd (loadImage ((decoding_to gray_example)\<lparr>read_frame := - 5\<rparr>) ''cut.pgm''))"
proof -
  have ok: "fst (loadImage (decoding_to gray_example) ''page.pgm'') = Inr gray_example"
    by (simp add: loadImage_decodes decodes_decoding_to frame_decoding_to load_switch_def
        av_frame_clone_def gray_example_def)
  have bad: "fst (loadImage ((decoding_to gray_example)\<lparr>read_frame := - 5\<rparr>) ''cut.pgm'') =
      Inl (Fatal ''unable to open file %s: %s'' [Str ''cut.pgm'', AvError (- 5)])"
    by (simp add: loadImage_def decoding_to_def errOutput_def)
  have lib: "alloc_context3 ((decoding_to gray_example)\<lparr>read_frame := - 5\<rparr>)"
    "0 \<le> open_input ((decoding_to gray_example)\<lparr>read_frame := - 5\<rparr>)"
    by (simp_all add: decoding_to_def)
  from loadImage_releases_on_return [of "decoding_to gray_example" "''page.pgm''"] ok
    loadImage_releases_on_return
      [of "(decoding_to gray_example)\<lparr>read_frame := - 5\<rparr>" "''cut.pgm''"] bad lib
  show ?thesis
    by blast
qed

text \<open>
  Claim C8, which the code does not meet. \<open>loadImage\<close> passes \<^verbatim>\<open>&got_frame\<close> to
  \<^verbatim>\<open>avcodec_decode_video2\<close> and never reads it: its result is the same whatever the flag.
  When decoding succeeds without a frame, the frame is as \<^verbatim>\<open>av_frame_alloc\<close> made it,
  the \<^verbatim>\<open>switch\<close> runs on its format, and the call ends with the diagnostic for an
  unsupported pixel format.
\<close>

theorem loadImage_ignores_got_frame:
  "loadImage (lib\<lparr>got_frame := False\<rparr>) filename = loadImage (lib\<lparr>got_frame := True\<rparr>) filename \<and>
   decode_video2 ((decoding_to av_frame_alloc)\<lparr>got_frame := False\<rparr>) = 0 \<and>
   fst (loadImage ((decoding_to av_frame_alloc)\<lparr>got_frame := False\<rparr>) ''blank.pnm'') =
     Inl (Fatal ''unable to open file %s: unsupported pixel format'' [Str ''blank.pnm''])"
  by (simp add: loadImage_got_frame)
     (simp add: loadImage_def decoding_to_def load_switch_def av_frame_alloc_def errOutput_def)

text \<open>
  Claim C9. With a palette of 256 entries, no lookup of the palette expansion leaves the
  table, whatever the frame holds: the index is one unsigned byte, so it is below 256,
  and \<open>loadImage\<close> never ends in an out-of-bounds palette read.
\<close>

theorem palette_lookup_in_bounds:
  assumes "length (palette (frame lib)) = 256"
  shows "fst (loadImage lib filename) \<noteq> Inl (Undefined Palette_read) \<and>
         (\<forall>palette_index. unat palette_index < length (palette (frame lib)) \<and>
            read_palette (frame lib) palette_index =
              Inr (palette (frame lib) ! unat palette_index))"
proof -
  have "load_switch filename (frame lib) \<noteq> Inl (Undefined Palette_read)"
    using assms by (intro load_switch_palette_safe) simp
  then have "fst (loadImage lib filename) \<noteq> Inl (Undefined Palette_read)"
    using loadImage_undefined [of lib filename Palette_read] by blast
  moreover have "\<forall>i. unat i < length (palette (frame lib)) \<and>
      read_palette (frame lib) i = Inr (palette (frame lib) ! unat i)"
    using assms unat_u8_less by (simp add: read_palette_ok)
  ultimately show ?thesis
    by blast
qed

theorem palette_lookup_in_bounds_witness:
  "fst (loadImage (decoding_to pal8_example) ''scan.png'') \<noteq> Inl (Undefined Palette_read) \<and>
   read_palette pal8_example 255 = Inr 0xFF0000FF"
  using palette_lookup_in_bounds [of "decoding_to pal8_example" "''scan.png''"]
  by (simp add: frame_decoding_to) (simp add: pal8_example_def)

subsection \<open>saveImage\<close>

text \<open>
  Claim C2. \<open>saveImage\<close> maps the desired format by the table of the spec: RGB24 to
  the PPM encoder with format RGB24, Gray8 and GrayAlpha8 to the PGM encoder with format
  Gray8, MonoBlack and MonoWhite to the PBM encoder with format MonoWhite. These are the
  values of the \<^verbatim>\<open>switch\<close>, and the codec and pixel format of the encoder context of
  every file the call writes. For a desired format outside the table the \<^verbatim>\<open>switch\<close>
  selects no codec (\<^verbatim>\<open>output_codec\<close> keeps its initial \<^verbatim>\<open>-1\<close>), and with a library
  that has no encoder under that id the call ends in a fatal error with nothing written.
\<close>

theorem saveImage_format_table:
  assumes "frame_at w input = Some inp"
  shows "(\<forall>fmt codec. format_table d = Some (fmt, codec) \<longrightarrow>
            save_switch d = (fmt, codec) \<and>
            (fst (saveImage env lib filename input d w) = Inr () \<longrightarrow>
               (\<exists>output out. format out = fmt \<and>
                  written (snd (saveImage env lib filename input d w)) =
                    written w @
                    file_written filename
                      \<lparr>ctx_codec = codec, ctx_width = width inp, ctx_height = height inp,
                       ctx_pix_fmt = fmt\<rparr> output out))) \<and>
         (format_table d = None \<and> \<not> find_encoder lib CODEC_ID_MINUS_ONE \<longrightarrow>
            (\<exists>msg args. fst (saveImage env lib filename input d w) = Inl (Fatal msg args)) \<and>
            written (snd (saveImage env lib filename input d w)) = written w)"
proof (intro conjI allI impI)
  fix fmt codec
  assume t: "format_table d = Some (fmt, codec)"
  then show sw: "save_switch d = (fmt, codec)"
    by (rule save_switch_table)
  assume ok: "fst (saveImage env lib filename input d w) = Inr ()"
  show "\<exists>output out. format out = fmt \<and>
          written (snd (saveImage env lib filename input d w)) =
            written w @
            file_written filename
              \<lparr>ctx_codec = codec, ctx_width = width inp, ctx_height = height inp,
               ctx_pix_fmt = fmt\<rparr> output out"
    using saveImage_Inr_written [OF assms ok] sw by simp
next
  assume a: "format_table d = None \<and> \<not> find_encoder lib CODEC_ID_MINUS_ONE"
  then have sw: "save_switch d = (d, CODEC_ID_MINUS_ONE)"
    by (simp add: save_switch_outside)
  have "(\<exists>msg args. fst (saveImage env lib filename input d w) = Inl (Fatal msg args)) \<and>
        written (snd (saveImage env lib filename input d w)) = written w"
  proof (cases "guess_format lib \<and> alloc_output_context lib")
    case False
    then obtain msg args where "saveImage env lib filename input d w = (Inl (Fatal msg args), w)"
      using saveImage_early [of lib env filename input d w] by blast
    then show ?thesis
      by simp
  next
    case True
    note lib = True [THEN conjunct1] True [THEN conjunct2]
    show ?thesis
    proof (cases "format inp = d")
      case True
      from saveImage_same [OF lib assms, of d env filename] True sw a
      show ?thesis
        by (simp add: save_encode_no_encoder written_hold)
    next
      case False
      from saveImage_other [OF lib assms, of d env filename] False sw a
      show ?thesis
        by (auto simp: save_encode_no_encoder written_hold)
    qed
  qed
  then show "\<exists>msg args. fst (saveImage env lib filename input d w) = Inl (Fatal msg args)"
    and "written (snd (saveImage env lib filename input d w)) = written w"
    by blast+
qed

theorem saveImage_format_table_witness:
  "format_table AV_PIX_FMT_Y400A = Some (AV_PIX_FMT_GRAY8, AV_CODEC_ID_PGM) \<and>
   (\<exists>output out. format out = AV_PIX_FMT_GRAY8 \<and>
      written (snd (saveImage debugging encoding ''out.pgm'' 0 AV_PIX_FMT_Y400A one_gray_frame)) =
        file_written ''out.pgm''
          \<lparr>ctx_codec = AV_CODEC_ID_PGM, ctx_width = 2, ctx_height = 1,
           ctx_pix_fmt = AV_PIX_FMT_GRAY8\<rparr> output out) \<and>
   format_table AV_PIX_FMT_PAL8 = None \<and>
   (\<exists>msg args. fst (saveImage debugging encoding ''out.pnm'' 0 AV_PIX_FMT_PAL8 one_gray_frame) =
      Inl (Fatal msg args)) \<and>
   written (snd (saveImage debugging encoding ''out.pnm'' 0 AV_PIX_FMT_PAL8 one_gray_frame)) = []"
proof -
  have t: "format_table AV_PIX_FMT_Y400A = Some (AV_PIX_FMT_GRAY8, AV_CODEC_ID_PGM)"
    "format_table AV_PIX_FMT_PAL8 = None"
    by (simp_all add: format_table_def)
  have r: "fst (saveImage debugging encoding ''out.pgm'' 0 AV_PIX_FMT_Y400A one_gray_frame) =
      Inr ()"
    by (simp add: save_gray_as_gray_alpha)
  have e: "\<not> find_encoder encoding CODEC_ID_MINUS_ONE" "written one_gray_frame = []"
    "width gray_example = 2" "height gray_example = 1"
    by (simp_all add: encoding_def one_gray_frame_def gray_example_def)
  from saveImage_format_table [OF frame_at_one_gray_frame, of AV_PIX_FMT_Y400A debugging
      encoding "''out.pgm''"] t(1) r
  have "\<exists>output out. format out = AV_PIX_FMT_GRAY8 \<and>
      written (snd (saveImage debugging encoding ''out.pgm'' 0 AV_PIX_FMT_Y400A one_gray_frame)) =
        file_written ''out.pgm''
          \<lparr>ctx_codec = AV_CODEC_ID_PGM, ctx_width = 2, ctx_height = 1,
           ctx_pix_fmt = AV_PIX_FMT_GRAY8\<rparr> output out"
    by (simp add: e)
  moreover
  from saveImage_format_table [OF frame_at_one_gray_frame, of AV_PIX_FMT_PAL8 debugging
      encoding "''out.pnm''"] t(2) e
  have "(\<exists>msg args. fst (saveImage debugging encoding ''out.pnm'' 0 AV_PIX_FMT_PAL8
                             one_gray_frame) = Inl (Fatal msg args)) \<and>
    written (snd (saveImage debugging encoding ''out.pnm'' 0 AV_PIX_FMT_PAL8 one_gray_frame)) = []"
    by simp
  ultimately show ?thesis
    using t by blast
qed



text \<open>
  Claim C10. The test of line 169 compares the format of the image with the normalized
  target, the first component of the \<^verbatim>\<open>switch\<close>, not with the requested format. An
  image already in the normalized format (a Gray8 image saved as GrayAlpha8, a MonoWhite
  image saved as MonoBlack) is encoded from its own address and no frame is allocated;
  an image in any other format gets a converted copy, as soon as the call reaches the test.
\<close>

theorem saveImage_converts_only_off_target:
  assumes "frame_at w input = Some inp"
  shows "(format inp = fst (save_switch d) \<longrightarrow>
            frames (snd (saveImage env lib filename input d w)) = frames w \<and>
            (fst (saveImage env lib filename input d w) = Inr () \<longrightarrow>
               written (snd (saveImage env lib filename input d w)) =
                 written w @
                 file_written filename
                   \<lparr>ctx_codec = snd (save_switch d), ctx_width = width inp,
                    ctx_height = height inp, ctx_pix_fmt = format inp\<rparr> input inp)) \<and>
         (format inp \<noteq> fst (save_switch d) \<and> guess_format lib \<and> alloc_output_context lib \<longrightarrow>
            length (frames (snd (saveImage env lib filename input d w))) =
              Suc (length (frames w)))"
proof (intro conjI impI)
  assume same: "format inp = fst (save_switch d)"
  with saveImage_on_target [OF assms, of d env lib filename]
  show "frames (snd (saveImage env lib filename input d w)) = frames w"
    by simp
  assume "fst (saveImage env lib filename input d w) = Inr ()"
  with same saveImage_on_target [OF assms, of d env lib filename]
  show "written (snd (saveImage env lib filename input d w)) =
          written w @
          file_written filename
            \<lparr>ctx_codec = snd (save_switch d), ctx_width = width inp,
             ctx_height = height inp, ctx_pix_fmt = format inp\<rparr> input inp"
    by simp
next
  assume a: "format inp \<noteq> fst (save_switch d) \<and> guess_format lib \<and> alloc_output_context lib"
  from saveImage_other [of lib w input inp d env filename] a assms
  obtain out where
    run: "saveImage env lib filename input d w =
             (case save_encode lib filename (snd (save_switch d)) (length (frames w)) out
                     ((hold OutputContext w)\<lparr>frames := frames w @ [Some out]\<rparr>) of
                (Inl e, w') \<Rightarrow> (Inl e, w')
              | (Inr u, w') \<Rightarrow> (Inr u, av_frame_free (length (frames w)) w'))"
    by blast
  let ?w2 = "(hold OutputContext w)\<lparr>frames := frames w @ [Some out]\<rparr>"
  obtain r w' where e:
    "save_encode lib filename (snd (save_switch d)) (length (frames w)) out ?w2 = (r, w')"
    by (cases "save_encode lib filename (snd (save_switch d)) (length (frames w)) out ?w2")
  have "frames w' = frames w @ [Some out]"
    using save_encode_frames [of lib filename "snd (save_switch d)" "length (frames w)" out ?w2]
    by (simp add: e)
  then show "length (frames (snd (saveImage env lib filename input d w))) = Suc (length (frames w))"
    unfolding run e by (cases r) (simp_all add: frames_av_frame_free)
qed

theorem saveImage_converts_only_off_target_witness:
  "format gray_example = fst (save_switch AV_PIX_FMT_Y400A) \<and>
   frames (snd (saveImage debugging encoding ''out.pgm'' 0 AV_PIX_FMT_Y400A one_gray_frame)) =
     [Some gray_example] \<and>
   written (snd (saveImage debugging encoding ''out.pgm'' 0 AV_PIX_FMT_Y400A one_gray_frame)) =
     file_written ''out.pgm''
       \<lparr>ctx_codec = AV_CODEC_ID_PGM, ctx_width = 2, ctx_height = 1,
        ctx_pix_fmt = AV_PIX_FMT_GRAY8\<rparr> 0 gray_example \<and>
   length (frames (snd (saveImage debugging encoding ''out.pbm'' 0 AV_PIX_FMT_MONOBLACK
                          one_gray_frame))) = 2"
proof -
  have same: "format gray_example = fst (save_switch AV_PIX_FMT_Y400A)"
    and other: "format gray_example \<noteq> fst (save_switch AV_PIX_FMT_MONOBLACK)"
    and sw: "snd (save_switch AV_PIX_FMT_Y400A) = AV_CODEC_ID_PGM"
    and g: "width gray_example = 2" "height gray_example = 1"
      "format gray_example = AV_PIX_FMT_GRAY8"
    by (simp_all add: gray_example_def save_switch_def)
  have r: "fst (saveImage debugging encoding ''out.pgm'' 0 AV_PIX_FMT_Y400A one_gray_frame) =
      Inr ()"
    by (simp add: save_gray_as_gray_alpha)
  have w: "frames one_gray_frame = [Some gray_example]" "written one_gray_frame = []"
    and lib: "guess_format encoding" "alloc_output_context encoding"
    by (simp_all add: one_gray_frame_def encoding_def)
  from saveImage_converts_only_off_target [OF frame_at_one_gray_frame, of AV_PIX_FMT_Y400A
      debugging encoding "''out.pgm''"] same r
  have "frames (snd (saveImage debugging encoding ''out.pgm'' 0 AV_PIX_FMT_Y400A one_gray_frame)) =
     [Some gray_example]"
   "written (snd (saveImage debugging encoding ''out.pgm'' 0 AV_PIX_FMT_Y400A one_gray_frame)) =
     file_written ''out.pgm''
       \<lparr>ctx_codec = AV_CODEC_ID_PGM, ctx_width = 2, ctx_height = 1,
        ctx_pix_fmt = AV_PIX_FMT_GRAY8\<rparr> 0 gray_example"
    by (simp_all add: w sw g)
  moreover
  from saveImage_converts_only_off_target [OF frame_at_one_gray_frame, of AV_PIX_FMT_MONOBLACK
      debugging encoding "''out.pbm''"] other lib
  have "length (frames (snd (saveImage debugging encoding ''out.pbm'' 0 AV_PIX_FMT_MONOBLACK
                          one_gray_frame))) = 2"
    by (simp add: w)
  ultimately show ?thesis
    using same by simp
qed

subsection \<open>saveDebug\<close>

text \<open>
  Against claim C7 as stated: at the debug-save level, a call whose file cannot be
  opened ends in the fatal error of \<open>saveImage\<close> with no file written, and a name of
  100 characters does not fit the buffer the name is formatted into.
\<close>

theorem saveDebug_without_file:
  "VERBOSE_DEBUG_SAVE debugging \<le> verbose debugging \<and>
   saveDebug debugging (encoding\<lparr>avio_open := - 2\<rparr>) ''stage%d.pnm'' 3 0 one_gray_frame =
     (Inl (Fatal (''could not open '' @ [CHR 0x27] @ ''%s'' @ [CHR 0x27]) [Str ''stage3.pnm'']),
      \<lparr>frames = [Some gray_example], held = [OpenedCodec, Stream, OutputContext],
       written = []\<rparr>) \<and>
   saveDebug debugging encoding (replicate 100 (CHR ''a'')) 3 0 one_gray_frame =
     (Inl (Undefined Name_buffer), one_gray_frame)"
proof -
  have "sprintf_d (replicate 100 (CHR ''a'')) 3 = replicate 100 (CHR ''a'')"
    by (simp add: sprintf_d_def substitute_plain)
  then have "saveDebug debugging encoding (replicate 100 (CHR ''a'')) 3 0 one_gray_frame =
     (Inl (Undefined Name_buffer), one_gray_frame)"
    by (simp add: saveDebug_def debugging_def)
  moreover
  have "saveDebug debugging (encoding\<lparr>avio_open := - 2\<rparr>) ''stage%d.pnm'' 3 0 one_gray_frame =
     (Inl (Fatal (''could not open '' @ [CHR 0x27] @ ''%s'' @ [CHR 0x27]) [Str ''stage3.pnm'']),
      \<lparr>frames = [Some gray_example], held = [OpenedCodec, Stream, OutputContext],
       written = []\<rparr>)"
    using sprintf_d_example by (simp add: saveDebug_def save_example_simps)
  ultimately show ?thesis
    by (simp add: debugging_def)
qed

text \<open>
  Claim C7, amended. Below the debug-save level \<open>saveDebug\<close> does nothing, for every
  template, index and image. At or above it, for a name that fits the 100-byte buffer,
  the call is \<open>saveImage\<close> on the template with the index substituted, with the format
  of the image as the desired format; when that call returns, exactly one file has been
  written, under that name.
\<close>

theorem saveDebug_gating:
  "(verbose env < VERBOSE_DEBUG_SAVE env \<longrightarrow>
      saveDebug env lib filenameTemplate index p w = (Inr (), w)) \<and>
   (VERBOSE_DEBUG_SAVE env \<le> verbose env \<and> frame_at w p = Some img \<and>
    length (sprintf env filenameTemplate index) < 100 \<longrightarrow>
      saveDebug env lib filenameTemplate index p w =
        saveImage env lib (sprintf env filenameTemplate index) p (format img) w \<and>
      (fst (saveDebug env lib filenameTemplate index p w) = Inr () \<longrightarrow>
         (\<exists>ctx output out.
            written (snd (saveDebug env lib filenameTemplate index p w)) =
              written w @ file_written (sprintf env filenameTemplate index) ctx output out \<and>
            ctx_pix_fmt ctx = fst (save_switch (format img)) \<and>
            ctx_codec ctx = snd (save_switch (format img)))))"
proof (intro conjI impI)
  assume "verbose env < VERBOSE_DEBUG_SAVE env"
  then show "saveDebug env lib filenameTemplate index p w = (Inr (), w)"
    by (simp add: saveDebug_def)
next
  assume a: "VERBOSE_DEBUG_SAVE env \<le> verbose env \<and> frame_at w p = Some img \<and>
    length (sprintf env filenameTemplate index) < 100"
  then show run: "saveDebug env lib filenameTemplate index p w =
        saveImage env lib (sprintf env filenameTemplate index) p (format img) w"
    by (simp add: saveDebug_def Let_def)
  assume "fst (saveDebug env lib filenameTemplate index p w) = Inr ()"
  then have ok: "fst (saveImage env lib (sprintf env filenameTemplate index) p (format img) w) =
      Inr ()"
    by (simp add: run)
  from a have p: "frame_at w p = Some img"
    by simp
  from saveImage_Inr_written [OF p ok]
  show "\<exists>ctx output out.
            written (snd (saveDebug env lib filenameTemplate index p w)) =
              written w @ file_written (sprintf env filenameTemplate index) ctx output out \<and>
            ctx_pix_fmt ctx = fst (save_switch (format img)) \<and>
            ctx_codec ctx = snd (save_switch (format img))"
    unfolding run by force
qed

theorem saveDebug_gating_witness:
  "saveDebug (debugging\<lparr>verbose := 1\<rparr>) encoding ''stage%d.pnm'' 3 0 one_gray_frame =
     (Inr (), one_gray_frame) \<and>
   (\<exists>ctx output out.
      written (snd (saveDebug debugging encoding ''stage%d.pnm'' 3 0 one_gray_frame)) =
        file_written ''stage3.pnm'' ctx output out \<and>
      ctx_pix_fmt ctx = AV_PIX_FMT_GRAY8 \<and> ctx_codec ctx = AV_CODEC_ID_PGM)"
proof -
  have low: "verbose (debugging\<lparr>verbose := 1\<rparr>) < VERBOSE_DEBUG_SAVE (debugging\<lparr>verbose := 1\<rparr>)"
    and high: "VERBOSE_DEBUG_SAVE debugging \<le> verbose debugging"
    and name: "sprintf debugging ''stage%d.pnm'' 3 = ''stage3.pnm''"
    by (simp_all add: debugging_def sprintf_d_example)
  have sw: "save_switch (format gray_example) = (AV_PIX_FMT_GRAY8, AV_CODEC_ID_PGM)"
    by (simp add: gray_example_def save_switch_def)
  have ok: "fst (saveDebug debugging encoding ''stage%d.pnm'' 3 0 one_gray_frame) = Inr ()"
    using sprintf_d_example by (simp add: saveDebug_def save_example_simps)
  have w: "written one_gray_frame = []"
    by (simp add: one_gray_frame_def)
  from saveDebug_gating [of "debugging\<lparr>verbose := 1\<rparr>" encoding "''stage%d.pnm''" 3 0
      one_gray_frame gray_example] low
  have "saveDebug (debugging\<lparr>verbose := 1\<rparr>) encoding ''stage%d.pnm'' 3 0 one_gray_frame =
     (Inr (), one_gray_frame)"
    by blast
  moreover
  have len: "length (sprintf debugging ''stage%d.pnm'' 3) < 100"
    by (simp add: name)
  note at_level = saveDebug_gating [of debugging encoding "''stage%d.pnm''" 3 0 one_gray_frame
      gray_example, THEN conjunct2, rule_format,
      OF conjI [OF high conjI [OF frame_at_one_gray_frame len]]]
  from at_level [THEN conjunct2, rule_format, OF ok]
  have "\<exists>ctx output out.
      written (snd (saveDebug debugging encoding ''stage%d.pnm'' 3 0 one_gray_frame)) =
        file_written ''stage3.pnm'' ctx output out \<and>
      ctx_pix_fmt ctx = AV_PIX_FMT_GRAY8 \<and> ctx_codec ctx = AV_CODEC_ID_PGM"
    unfolding name sw w by simp
  ultimately show ?thesis
    by blast
qed

end
